theory Spec2Isabelle
  imports Main
begin

section \<open>Values, error objects and the JavaScript platform\<close>

text \<open>
  The module \<open>src/src/pause.js\<close> is embedded as state-passing functions. JavaScript
  values are a small tree datatype (numbers are integers, a function value is given by
  its source text, no cyclic values), text is ASCII (\<open>string\<close>), and an error object is
  a record whose field \<open>ident\<close> is the object's identity: mutating \<open>error.message\<close>
  keeps \<open>ident\<close>, \<open>new Error(...)\<close> allocates a new one. Thrown values are always error
  objects. Code that the module executes (the caller's function, a synthesized function)
  is a function from its arguments to a value or a thrown error: what such code does to
  the store or the LLM on its own account is not part of the model. \<open>maxAiRetries\<close> is
  an integer; other numbers (fractions, NaN, Infinity) are not represented.
\<close>

datatype jsval =
    JUndefined
  | JNull
  | JBool bool
  | JNum int
  | JStr string
  | JFun string
  | JArr "jsval list"
  | JObj "(string \<times> jsval) list"

datatype ref = Thrown nat | Made nat

record js_error =
  ident :: ref
  err_name :: string
  message :: string
  stack :: string

type_synonym callable = "jsval list \<Rightarrow> js_error + jsval"

text \<open>
  What the module takes from the language runtime: the two function constructors
  (\<open>new Function(...names, body)\<close> and \<open>new AsyncFunction(...names, body)\<close>, either a
  thrown SyntaxError or a callable; calling it and awaiting the result either throws or
  gives a value), \<open>JSON.parse\<close>, \<open>JSON.stringify\<close> and template-literal conversion to
  text.
\<close>

record platform =
  Function_ctor :: "string list \<Rightarrow> string \<Rightarrow> js_error + callable"
  AsyncFunction_ctor :: "string list \<Rightarrow> string \<Rightarrow> js_error + callable"
  JSON_parse :: "string \<Rightarrow> js_error + jsval"
  JSON_stringify :: "jsval \<Rightarrow> string"
  ToString :: "jsval \<Rightarrow> string"

text \<open>The structured reply of the LLM (an AIMessage): optional tool calls and content.\<close>

record tool_call =
  tc_name :: string
  tc_args :: jsval
  tc_id :: string

record ai_response =
  tool_calls :: "tool_call list option"
  content :: string

text \<open>
  \<open>contextInfo\<close> of \<open>_buildCorrectionPrompt\<close>: the six values the prompt template
  interpolates. The prompt is modelled by these values; the fixed prose of the template
  around them is left out.
\<close>

record contextInfo =
  ci_id :: string
  ci_description :: string
  ci_error :: string
  ci_stack :: string
  ci_originalCode :: string
  ci_args :: string

text \<open>The third argument of \<open>run\<close>: a function (with its source text), a string, or neither.\<close>

datatype fn_or_code = Fn string callable | Code string | Neither jsval

text \<open>
  Observable steps of one call, in order: the store fetch, a call of the caller's
  function, entry into the two executors, construction and call of a synthesized
  function, an LLM invocation and a store save.
\<close>

datatype event =
    Fetch string
  | CallDefault "jsval list"
  | FunctionString string
  | ViaEval string
  | Construct bool "string list" string
  | Apply "string list" string "jsval list"
  | Invoke contextInfo
  | Save string string

record 'db world =
  db :: 'db
  llm_calls :: nat
  made :: nat
  trace :: "event list"

text \<open>
  A \<open>Pause\<close> instance. The store functions work on an explicit store state; the LLM
  answers by the index of the invocation and the prompt.
\<close>

type_synonym llm_fn = "nat \<Rightarrow> contextInfo \<Rightarrow> js_error + ai_response"

record 'db pause =
  getFunctionFromDb :: "'db \<Rightarrow> string \<Rightarrow> js_error + string option"
  saveFunctionToDb :: "'db \<Rightarrow> string \<Rightarrow> string \<Rightarrow> js_error + 'db"
  maxAiRetries :: int
  llm :: "llm_fn option"

record 'db options =
  opt_getFunctionFromDb :: "('db \<Rightarrow> string \<Rightarrow> js_error + string option) option"
  opt_saveFunctionToDb :: "('db \<Rightarrow> string \<Rightarrow> string \<Rightarrow> js_error + 'db) option"
  opt_maxAiRetries :: jsval
  opt_llm :: "llm_fn option"

definition emit :: "event \<Rightarrow> 'db world \<Rightarrow> 'db world" where
  "emit ev w = w\<lparr>trace := trace w @ [ev]\<rparr>"

definition new_Error :: "string \<Rightarrow> 'db world \<Rightarrow> js_error \<times> 'db world" where
  "new_Error msg w =
     (\<lparr>ident = Made (made w), err_name = ''Error'', message = msg,
       stack = ''Error: '' @ msg\<rparr>,
      w\<lparr>made := Suc (made w)\<rparr>)"

definition error_toString :: "js_error \<Rightarrow> string" where
  "error_toString e =
     (if err_name e = [] then message e
      else if message e = [] then err_name e
      else err_name e @ '': '' @ message e)"

definition js_new ::
  "platform \<Rightarrow> bool \<Rightarrow> string list \<Rightarrow> string \<Rightarrow> 'db world \<Rightarrow> (js_error + callable) \<times> 'db world" where
  "js_new P is_async names body w =
     ((if is_async then AsyncFunction_ctor P names body else Function_ctor P names body),
      emit (Construct is_async names body) w)"

definition js_apply ::
  "string list \<Rightarrow> string \<Rightarrow> callable \<Rightarrow> jsval list \<Rightarrow> 'db world \<Rightarrow> (js_error + jsval) \<times> 'db world" where
  "js_apply names body fn args w = (fn args, emit (Apply names body args) w)"

text \<open>
  Building a function and calling it at once, as every executor of the module does
  inside one \<open>try\<close>: what the pair of steps gives, and the two steps with their events.
\<close>

definition outcome :: "platform \<Rightarrow> bool \<Rightarrow> string list \<Rightarrow> string \<Rightarrow> jsval list \<Rightarrow> js_error + jsval" where
  "outcome P is_async names body args =
     (case (if is_async then AsyncFunction_ctor P names body else Function_ctor P names body) of
        Inl e \<Rightarrow> Inl e
      | Inr fn \<Rightarrow> fn args)"

definition construct_and_call ::
  "platform \<Rightarrow> bool \<Rightarrow> string list \<Rightarrow> string \<Rightarrow> jsval list \<Rightarrow> 'db world \<Rightarrow> (js_error + jsval) \<times> 'db world" where
  "construct_and_call P is_async names body args w =
     (case js_new P is_async names body w of
        (Inl e, w1) \<Rightarrow> (Inl e, w1)
      | (Inr fn, w1) \<Rightarrow> js_apply names body fn args w1)"

section \<open>Text helpers\<close>

definition is_space :: "char \<Rightarrow> bool" where
  "is_space c \<longleftrightarrow>
     c = CHR '' '' \<or> c = CHR 0x09 \<or> c = CHR 0x0A \<or> c = CHR 0x0B \<or> c = CHR 0x0C \<or> c = CHR 0x0D"

definition is_line_terminator :: "char \<Rightarrow> bool" where
  "is_line_terminator c \<longleftrightarrow> c = CHR 0x0A \<or> c = CHR 0x0D"

definition trim :: "string \<Rightarrow> string" where
  "trim s = rev (dropWhile is_space (rev (dropWhile is_space s)))"

fun starts_with :: "string \<Rightarrow> string \<Rightarrow> bool" where
  "starts_with [] s = True"
| "starts_with (p # ps) [] = False"
| "starts_with (p # ps) (c # cs) = (p = c \<and> starts_with ps cs)"

fun join_with :: "string \<Rightarrow> string list \<Rightarrow> string" where
  "join_with sep [] = []"
| "join_with sep [x] = x"
| "join_with sep (x # y # ys) = x @ sep @ join_with sep (y # ys)"

fun replace_first :: "string \<Rightarrow> string \<Rightarrow> string \<Rightarrow> string" where
  "replace_first pat rep [] = (if pat = [] then rep else [])"
| "replace_first pat rep (c # cs) =
     (if starts_with pat (c # cs) then rep @ drop (length pat) (c # cs)
      else c # replace_first pat rep cs)"

definition digit_char :: "nat \<Rightarrow> char" where
  "digit_char d = char_of (48 + d)"

fun show_nat :: "nat \<Rightarrow> string" where
  "show_nat n = (if n < 10 then [digit_char n] else show_nat (n div 10) @ [digit_char (n mod 10)])"

declare show_nat.simps [simp del]

fun matches_anywhere :: "(string \<Rightarrow> bool) \<Rightarrow> string \<Rightarrow> bool" where
  "matches_anywhere m [] = m []"
| "matches_anywhere m (c # cs) = (m (c # cs) \<or> matches_anywhere m cs)"

text \<open>\<open>async\s+tok\<close> matched at the start of \<open>s\<close>.\<close>

definition async_ws_then :: "string \<Rightarrow> string \<Rightarrow> bool" where
  "async_ws_then tok s =
     (starts_with ''async'' s \<and>
      (case drop 5 s of [] \<Rightarrow> False
       | c # cs \<Rightarrow> is_space c \<and> starts_with tok (dropWhile is_space cs)))"

text \<open>\<open>/^(async\s+)?function\*?|async\s+=>|async\s+\(/.test(code.trim())\<close>\<close>

definition isLikelyAsyncString :: "string \<Rightarrow> bool" where
  "isLikelyAsyncString code =
     (let t = trim code in
        starts_with ''function'' t \<or> async_ws_then ''function'' t \<or>
        matches_anywhere (async_ws_then ''=>'') t \<or>
        matches_anywhere (async_ws_then ''('') t)"

section \<open>The executors\<close>

definition arg_names :: "nat \<Rightarrow> string list" where
  "arg_names n = map (\<lambda>i. ''arg'' @ show_nat i) [0..<n]"

definition add_context :: "string \<Rightarrow> js_error \<Rightarrow> js_error" where
  "add_context prefix e = e\<lparr>message := prefix @ message e\<rparr>"

text \<open>
  \<open>_executeFunctionString(codeString, id, ...args)\<close>: the text is wrapped as
  \<open>return (codeString)(arg0, ..., argN);\<close>, built by the async or the plain constructor
  as the leading-token test says, and called with the arguments. Whatever is thrown
  (by the constructor or by the call) gets the context prefix written into its message
  and is thrown again: the same object.
\<close>

definition functionString_body :: "string \<Rightarrow> jsval list \<Rightarrow> string" where
  "functionString_body codeString args =
     replace_first ''...arguments'' (join_with '', '' (arg_names (length args)))
       (''return ('' @ codeString @ '')(...arguments);'')"

definition functionString_prefix :: "string \<Rightarrow> string" where
  "functionString_prefix bid = ''Error executing function string for ID '' @ bid @ '': ''"

definition executeFunctionString ::
  "platform \<Rightarrow> string \<Rightarrow> string \<Rightarrow> jsval list \<Rightarrow> 'db world \<Rightarrow> (js_error + jsval) \<times> 'db world" where
  "executeFunctionString P codeString bid args w =
     (case construct_and_call P (isLikelyAsyncString codeString) (arg_names (length args))
             (functionString_body codeString args) args (emit (FunctionString codeString) w) of
        (Inl e, w1) \<Rightarrow> (Inl (add_context (functionString_prefix bid) e), w1)
      | (Inr v, w1) \<Rightarrow> (Inr v, w1))"

text \<open>\<open>/\((.*?)\)/\<close>: the first \<open>(\<close> that is closed by a \<open>)\<close> on the same line.\<close>

fun upto_close :: "string \<Rightarrow> string option" where
  "upto_close [] = None"
| "upto_close (c # cs) =
     (if c = CHR '')'' then Some []
      else if is_line_terminator c then None
      else map_option ((#) c) (upto_close cs))"

fun paramMatch :: "string \<Rightarrow> string option" where
  "paramMatch [] = None"
| "paramMatch (c # cs) =
     (if c = CHR ''('' then (case upto_close cs of Some g \<Rightarrow> Some g | None \<Rightarrow> paramMatch cs)
      else paramMatch cs)"

fun split_comma :: "string \<Rightarrow> string list" where
  "split_comma [] = [[]]"
| "split_comma (c # cs) =
     (if c = CHR '','' then [] # split_comma cs
      else (case split_comma cs of [] \<Rightarrow> [[c]] | x # xs \<Rightarrow> (c # x) # xs))"

definition infer_params :: "string \<Rightarrow> string list" where
  "infer_params codeString =
     (case paramMatch codeString of
        Some g \<Rightarrow> filter (\<lambda>p. p \<noteq> []) (map trim (split_comma g))
      | None \<Rightarrow> [])"

text \<open>
  \<open>{(.*)}\s*$\<close> (flag \<open>s\<close>) matched at the start of \<open>r\<close>: \<open>r\<close> opens with a brace and
  its last character that is not white space is a closing brace; the group is the text
  between the two.
\<close>

definition block_group :: "string \<Rightarrow> string option" where
  "block_group r =
     (case r of [] \<Rightarrow> None
      | c # rest \<Rightarrow>
          (if c \<noteq> CHR ''{'' then None
           else (let u = rev (dropWhile is_space (rev rest)) in
                 if u \<noteq> [] \<and> last u = CHR ''}'' then Some (butlast u) else None)))"

definition alt_arrow :: "string \<Rightarrow> string option" where
  "alt_arrow s = (if starts_with ''=>'' s then block_group (dropWhile is_space (drop 2 s)) else None)"

definition alt_function :: "string \<Rightarrow> string option" where
  "alt_function s =
     (if starts_with ''function'' s then block_group (dropWhile (\<lambda>c. c \<noteq> CHR ''{'') (drop 8 s))
      else None)"

text \<open>
  \<open>/=>\s*{(.*)}\s*$|function.*?{(.*)}\s*$/s\<close>: the leftmost position where one of the
  two alternatives matches; the result is the group of that alternative.
\<close>

fun bodyMatch :: "string \<Rightarrow> string option" where
  "bodyMatch [] = None"
| "bodyMatch (c # cs) =
     (case alt_arrow (c # cs) of Some g \<Rightarrow> Some g
      | None \<Rightarrow> (case alt_function (c # cs) of Some g \<Rightarrow> Some g | None \<Rightarrow> bodyMatch cs))"

text \<open>\<open>/=>\s*(.*)/s\<close>: everything after the first arrow and the white space behind it.\<close>

fun arrowBodyMatch :: "string \<Rightarrow> string option" where
  "arrowBodyMatch [] = None"
| "arrowBodyMatch (c # cs) =
     (if starts_with ''=>'' (c # cs) then Some (dropWhile is_space (drop 2 (c # cs)))
      else arrowBodyMatch cs)"

definition infer_body :: "string \<Rightarrow> string" where
  "infer_body codeString =
     (case bodyMatch codeString of
        Some g \<Rightarrow> (if g \<noteq> [] then g else codeString)
      | None \<Rightarrow>
          (case arrowBodyMatch codeString of
             Some a \<Rightarrow> ''return '' @ a
           | None \<Rightarrow> codeString))"

text \<open>
  \<open>executionScope[param] = args[index]\<close> on an object whose keys keep insertion order:
  an existing key keeps its place, a new key goes last; an index past the arguments
  reads \<open>undefined\<close>. Keys are taken to be identifiers: a key that reads as an array
  index (\<open>0\<close>, \<open>1\<close>, ...), which a JavaScript object lists before all others, is not
  reordered here.
\<close>

fun assign :: "string \<Rightarrow> jsval \<Rightarrow> (string \<times> jsval) list \<Rightarrow> (string \<times> jsval) list" where
  "assign k v [] = [(k, v)]"
| "assign k v ((k', v') # kvs) = (if k' = k then (k, v) # kvs else (k', v') # assign k v kvs)"

definition arg_at :: "jsval list \<Rightarrow> nat \<Rightarrow> jsval" where
  "arg_at args i = (if i < length args then args ! i else JUndefined)"

fun bind_params :: "string list \<Rightarrow> nat \<Rightarrow> jsval list \<Rightarrow> (string \<times> jsval) list \<Rightarrow> (string \<times> jsval) list" where
  "bind_params [] i args sc = sc"
| "bind_params (p # ps) i args sc = bind_params ps (Suc i) args (assign p (arg_at args i) sc)"

definition executionScope :: "string \<Rightarrow> (string \<times> jsval) list \<Rightarrow> jsval list \<Rightarrow> (string \<times> jsval) list" where
  "executionScope codeString scope args = bind_params (infer_params codeString) 0 args scope"

text \<open>
  \<open>_executeCodeStringViaEval(codeString, id, scope, ...args)\<close>: an async function whose
  parameters are the keys of the execution scope and whose body is the inferred body
  between two blanks, called with the values of the scope.
\<close>

definition eval_body :: "string \<Rightarrow> string" where
  "eval_body codeString = '' '' @ infer_body codeString @ '' ''"

definition eval_prefix :: "string \<Rightarrow> string" where
  "eval_prefix bid = ''Error executing code string via eval for ID '' @ bid @ '': ''"

definition executeCodeStringViaEval ::
  "platform \<Rightarrow> string \<Rightarrow> string \<Rightarrow> (string \<times> jsval) list \<Rightarrow> jsval list \<Rightarrow> 'db world \<Rightarrow>
   (js_error + jsval) \<times> 'db world" where
  "executeCodeStringViaEval P codeString bid scope args w =
     (let es = executionScope codeString scope args in
      case construct_and_call P True (map fst es) (eval_body codeString) (map snd es)
             (emit (ViaEval codeString) w) of
        (Inl e, w1) \<Rightarrow> (Inl (add_context (eval_prefix bid) e), w1)
      | (Inr v, w1) \<Rightarrow> (Inr v, w1))"

section \<open>The correction client\<close>

definition buildCorrectionPrompt ::
  "platform \<Rightarrow> string \<Rightarrow> string \<Rightarrow> string \<Rightarrow> js_error \<Rightarrow> jsval list \<Rightarrow> contextInfo" where
  "buildCorrectionPrompt P bid description originalCode error args =
     \<lparr>ci_id = bid, ci_description = description, ci_error = error_toString error,
      ci_stack = stack error, ci_originalCode = originalCode,
      ci_args = JSON_stringify P (JArr args)\<rparr>"

definition throw_new :: "string \<Rightarrow> 'db world \<Rightarrow> (js_error + 'a) \<times> 'db world" where
  "throw_new msg w = (case new_Error msg w of (e, w') \<Rightarrow> (Inl e, w'))"

definition is_object :: "jsval \<Rightarrow> bool" where
  "is_object v = (case v of JObj kvs \<Rightarrow> True | JArr xs \<Rightarrow> True | _ \<Rightarrow> False)"

definition get_prop :: "jsval \<Rightarrow> string \<Rightarrow> jsval" where
  "get_prop v k =
     (case v of
        JObj kvs \<Rightarrow> (case map_of kvs k of Some x \<Rightarrow> x | None \<Rightarrow> JUndefined)
      | _ \<Rightarrow> JUndefined)"

definition tool_call_obj :: "tool_call \<Rightarrow> jsval" where
  "tool_call_obj tc = JObj [(''name'', JStr (tc_name tc)), (''args'', tc_args tc), (''id'', JStr (tc_id tc))]"

text \<open>\<open>if (typeof parsedArgs === 'string') parsedArgs = JSON.parse(parsedArgs)\<close>\<close>

definition parse_tool_args :: "platform \<Rightarrow> jsval \<Rightarrow> js_error + jsval" where
  "parse_tool_args P a = (case a of JStr js \<Rightarrow> JSON_parse P js | _ \<Rightarrow> Inr a)"

text \<open>\<open>!correctedCode || typeof correctedCode !== 'string'\<close> fails: a text that is not empty.\<close>

definition usable_code :: "jsval \<Rightarrow> string option" where
  "usable_code v = (case v of JStr c \<Rightarrow> (if c = [] then None else Some c) | _ \<Rightarrow> None)"

text \<open>
  \<open>try { new Function(`return ${correctedCode}`)(); } catch (e) { throw new Error(...) }\<close>:
  a function is built from \<open>return <corrected_code>\<close> and called with no argument;
  anything thrown by either step rejects the proposal.
\<close>

definition syntax_check :: "platform \<Rightarrow> string \<Rightarrow> 'db world \<Rightarrow> (js_error + string) \<times> 'db world" where
  "syntax_check P c w =
     (case construct_and_call P False [] (''return '' @ c) [] w of
        (Inl e, w1) \<Rightarrow>
          throw_new (''AI proposed invalid JavaScript syntax: '' @ message e
                     @ [CHR 0x0A] @ ''Code: '' @ c) w1
      | (Inr v, w1) \<Rightarrow> (Inr c, w1))"

text \<open>
  \<open>_attemptAICorrection\<close>: one LLM invocation with the prompt, then the checks of the
  reply in the order of the source.
\<close>

definition attemptAICorrection ::
  "platform \<Rightarrow> llm_fn \<Rightarrow> string \<Rightarrow> string \<Rightarrow> string \<Rightarrow> js_error \<Rightarrow> jsval list \<Rightarrow> int \<Rightarrow>
   'db world \<Rightarrow> (js_error + string) \<times> 'db world" where
  "attemptAICorrection P the_llm bid description originalCodeString originalError args attemptNumber w =
     (let promptText = buildCorrectionPrompt P bid description originalCodeString originalError args;
          w0 = (emit (Invoke promptText) w)\<lparr>llm_calls := Suc (llm_calls w)\<rparr>
      in case the_llm (llm_calls w) promptText of
           Inl e \<Rightarrow> (Inl e, w0)
         | Inr aiResponse \<Rightarrow>
          (case tool_calls aiResponse of
             None \<Rightarrow>
               throw_new (''AI failed to propose a correction using the tool. Response content: ''
                          @ content aiResponse) w0
           | Some [] \<Rightarrow>
               throw_new (''AI failed to propose a correction using the tool. Response content: ''
                          @ content aiResponse) w0
           | Some (toolCall # others) \<Rightarrow>
              (case parse_tool_args P (tc_args toolCall) of
                 Inl parseError \<Rightarrow>
                   throw_new (''Failed to parse tool call arguments string: '' @ message parseError) w0
               | Inr parsedArgs \<Rightarrow>
                  (if tc_name toolCall \<noteq> ''propose_corrected_block'' \<or> \<not> is_object parsedArgs
                   then throw_new (''AI responded with unexpected tool call structure or args: ''
                                   @ JSON_stringify P (tool_call_obj toolCall)) w0
                   else if get_prop parsedArgs ''block_id'' \<noteq> JStr bid
                   then throw_new (''AI tool call had mismatched block_id. Expected '' @ bid
                                   @ '', got '' @ ToString P (get_prop parsedArgs ''block_id'')) w0
                   else
                    (case usable_code (get_prop parsedArgs ''corrected_code'') of
                       None \<Rightarrow> throw_new ''AI tool call did not return a valid corrected_code string.'' w0
                     | Some correctedCode \<Rightarrow> syntax_check P correctedCode w0)))))"

text \<open>
  The \<open>func\<close> of the tool made by \<open>_createCorrectionTool(id)\<close>: the same check, reported
  as text. The module itself only binds the tool to the LLM and never calls \<open>func\<close>.
\<close>

definition correctionTool_func ::
  "platform \<Rightarrow> string \<Rightarrow> string \<Rightarrow> string \<Rightarrow> 'db world \<Rightarrow> string \<times> 'db world" where
  "correctionTool_func P bid block_id corrected_code w =
     (if block_id \<noteq> bid
      then (''Tool Error: Incorrect block_id. Expected '' @ bid @ '', got '' @ block_id, w)
      else
       (case construct_and_call P False [] (''return '' @ corrected_code) [] w of
          (Inl e, w1) \<Rightarrow> (''Tool Error: Proposed code is not valid JavaScript syntax: '' @ message e, w1)
        | (Inr v, w1) \<Rightarrow>
            (''Successfully validated proposed corrected code for block '' @ block_id @ ''.'', w1)))"

section \<open>The instance and \<open>run\<close>\<close>

text \<open>
  The constructor. \<open>env_llm\<close> is the LLM that the environment's API key yields
  (\<open>None\<close> without a key, or when building it failed).
\<close>

definition constructor :: "'db options \<Rightarrow> llm_fn option \<Rightarrow> 'db pause" where
  "constructor options env_llm =
     \<lparr>getFunctionFromDb = (case opt_getFunctionFromDb options of Some g \<Rightarrow> g | None \<Rightarrow> (\<lambda>d i. Inr None)),
      saveFunctionToDb = (case opt_saveFunctionToDb options of Some f \<Rightarrow> f | None \<Rightarrow> (\<lambda>d i c. Inr d)),
      maxAiRetries = (case opt_maxAiRetries options of JNum n \<Rightarrow> n | _ \<Rightarrow> 3),
      llm = (case opt_llm options of Some l \<Rightarrow> Some l | None \<Rightarrow> env_llm)\<rparr>"

text \<open>The body of the outer \<open>try\<close> of \<open>run\<close>: fetch, then the stored text or the default.\<close>

definition run_try ::
  "platform \<Rightarrow> 'db pause \<Rightarrow> string \<Rightarrow> fn_or_code \<Rightarrow> (string \<times> jsval) list \<Rightarrow> jsval list \<Rightarrow>
   'db world \<Rightarrow> (js_error + jsval) \<times> 'db world" where
  "run_try P this bid fnOrCode scope args w =
     (let w0 = emit (Fetch bid) w in
      case getFunctionFromDb this (db w0) bid of
        Inl e \<Rightarrow> (Inl e, w0)
      | Inr savedFunctionString \<Rightarrow>
         (case savedFunctionString of
            Some (c # cs) \<Rightarrow> executeFunctionString P (c # cs) bid args w0
          | _ \<Rightarrow>
             (case fnOrCode of
                Fn src f \<Rightarrow> (f args, emit (CallDefault args) w0)
              | Code code \<Rightarrow> executeCodeStringViaEval P code bid scope args w0
              | Neither v \<Rightarrow> (Inr JUndefined, w0))))"

text \<open>The body of the inner \<open>try\<close>: propose, save, execute the corrected text.\<close>

definition correction_try ::
  "platform \<Rightarrow> 'db pause \<Rightarrow> llm_fn \<Rightarrow> string \<Rightarrow> string \<Rightarrow> string \<Rightarrow> js_error \<Rightarrow> jsval list \<Rightarrow>
   int \<Rightarrow> 'db world \<Rightarrow> (js_error + jsval) \<times> 'db world" where
  "correction_try P this the_llm bid description originalCodeString error args attempt w =
     (case attemptAICorrection P the_llm bid description originalCodeString error args attempt w of
        (Inl e, w1) \<Rightarrow> (Inl e, w1)
      | (Inr correctedCode, w1) \<Rightarrow>
         (let w2 = emit (Save bid correctedCode) w1 in
          case saveFunctionToDb this (db w2) bid correctedCode of
            Inl e \<Rightarrow> (Inl e, w2)
          | Inr d \<Rightarrow> executeFunctionString P correctedCode bid args (w2\<lparr>db := d\<rparr>)))"

text \<open>
  \<open>for (let attempt = 1; attempt <= this.maxAiRetries; attempt++)\<close> with its
  \<open>catch\<close>: a failed attempt throws the summary error when \<open>attempt === maxAiRetries\<close>
  and goes on otherwise; a loop that ends without \<open>return\<close> or \<open>throw\<close> lets \<open>run\<close>
  end, which resolves to \<open>undefined\<close>.
\<close>

function correction_loop ::
  "platform \<Rightarrow> 'db pause \<Rightarrow> llm_fn \<Rightarrow> string \<Rightarrow> string \<Rightarrow> string \<Rightarrow> js_error \<Rightarrow> jsval list \<Rightarrow>
   int \<Rightarrow> 'db world \<Rightarrow> (js_error + jsval) \<times> 'db world" where
  "correction_loop P this the_llm bid description originalCodeString error args attempt w =
     (if attempt \<le> maxAiRetries this then
        (case correction_try P this the_llm bid description originalCodeString error args attempt w of
           (Inr v, w1) \<Rightarrow> (Inr v, w1)
         | (Inl aiAttemptError, w1) \<Rightarrow>
            (if attempt = maxAiRetries this
             then throw_new (''Max AI retries reached for block ID: '' @ bid
                             @ ''. Last AI error: '' @ message aiAttemptError
                             @ ''. Original error: '' @ message error) w1
             else correction_loop P this the_llm bid description originalCodeString error args
                    (attempt + 1) w1))
      else (Inr JUndefined, w))"
  by pat_completeness auto
termination
  by (relation "measure (\<lambda>(P, this, the_llm, bid, description, originalCodeString, error, args, attempt, w).
                   nat (maxAiRetries this + 1 - attempt))") auto

declare correction_loop.simps [simp del]

definition run ::
  "platform \<Rightarrow> 'db pause \<Rightarrow> string \<Rightarrow> string \<Rightarrow> fn_or_code \<Rightarrow> (string \<times> jsval) list \<Rightarrow> jsval list \<Rightarrow>
   'db world \<Rightarrow> (js_error + jsval) \<times> 'db world" where
  "run P this bid description fnOrCode scope args w =
     (case fnOrCode of
        Neither v \<Rightarrow> throw_new ''[Pause] Invalid type for fnOrCode: must be a function or string.'' w
      | _ \<Rightarrow>
         (let originalCodeString = (case fnOrCode of Fn src f \<Rightarrow> src | Code code \<Rightarrow> code | Neither v \<Rightarrow> [])
          in case run_try P this bid fnOrCode scope args w of
               (Inr v, w1) \<Rightarrow> (Inr v, w1)
             | (Inl error, w1) \<Rightarrow>
                (case llm this of
                   Some the_llm \<Rightarrow>
                     correction_loop P this the_llm bid description originalCodeString error args 1 w1
                 | None \<Rightarrow> (Inl error, w1))))"

section \<open>A store, a platform and LLMs for concrete runs\<close>

text \<open>
  An in-memory store (an association list, newest entry first), a store whose fetch
  throws and a store whose save throws.
\<close>

definition mem_get :: "(string \<times> string) list \<Rightarrow> string \<Rightarrow> js_error + string option" where
  "mem_get d i = Inr (map_of d i)"

definition mem_save :: "(string \<times> string) list \<Rightarrow> string \<Rightarrow> string \<Rightarrow> js_error + (string \<times> string) list" where
  "mem_save d i c = Inr ((i, c) # d)"

definition db_down :: js_error where
  "db_down = \<lparr>ident = Thrown 7, err_name = ''Error'', message = ''db down'', stack = ''Error: db down''\<rparr>"

definition failing_get :: "(string \<times> string) list \<Rightarrow> string \<Rightarrow> js_error + string option" where
  "failing_get d i = Inl db_down"

definition failing_save :: "(string \<times> string) list \<Rightarrow> string \<Rightarrow> string \<Rightarrow> js_error + (string \<times> string) list" where
  "failing_save d i c = Inl db_down"

definition reference_error :: "nat \<Rightarrow> string \<Rightarrow> js_error" where
  "reference_error n v =
     \<lparr>ident = Thrown n, err_name = ''ReferenceError'', message = v @ '' is not defined'',
      stack = ''ReferenceError: '' @ v @ '' is not defined''\<rparr>"

definition syntax_error :: "nat \<Rightarrow> string \<Rightarrow> js_error" where
  "syntax_error n m =
     \<lparr>ident = Thrown n, err_name = ''SyntaxError'', message = m, stack = ''SyntaxError: '' @ m\<rparr>"

text \<open>
  A platform that answers as JavaScript does on the handful of programs used below and
  refuses every other text: reading an undeclared variable throws a ReferenceError when
  the function is called, \<open>() => 1\<close> is a function that returns 1, the text
  \<open>() => { syntax error here; }\<close> does not parse, and \<open>return p + q\<close> adds its two
  numeric arguments.
\<close>

definition demo_Function :: "string list \<Rightarrow> string \<Rightarrow> js_error + callable" where
  "demo_Function names body =
     (if names = [] \<and> body = ''return (() => nonExistentDbVar)();''
        then Inr (\<lambda>args. Inl (reference_error 1 ''nonExistentDbVar''))
      else if names = [] \<and> body = ''return nonExistentVar''
        then Inr (\<lambda>args. Inl (reference_error 2 ''nonExistentVar''))
      else if names = [] \<and> body = ''return () => 1''
        then Inr (\<lambda>args. Inr (JFun ''() => 1''))
      else if names = [] \<and> body = ''return (() => 1)();''
        then Inr (\<lambda>args. Inr (JNum 1))
      else if names = [] \<and> body = ''return () => { syntax error here; }''
        then Inl (syntax_error 3 ''Unexpected identifier error'')
      else Inl (syntax_error 4 ''Unexpected token''))"

definition demo_AsyncFunction :: "string list \<Rightarrow> string \<Rightarrow> js_error + callable" where
  "demo_AsyncFunction names body =
     (if names = [''p'', ''q''] \<and> body = '' return p + q ''
        then Inr (\<lambda>args. case args of [JNum a, JNum b] \<Rightarrow> Inr (JNum (a + b)) | _ \<Rightarrow> Inr JUndefined)
      else if names = [] \<and> body = '' return nonExistentVar ''
        then Inr (\<lambda>args. Inl (reference_error 5 ''nonExistentVar''))
      else Inl (syntax_error 6 ''Unexpected token''))"

definition demo_platform :: platform where
  "demo_platform =
     \<lparr>Function_ctor = demo_Function, AsyncFunction_ctor = demo_AsyncFunction,
      JSON_parse = (\<lambda>s. Inl (syntax_error 8 ''Unexpected token in JSON'')),
      JSON_stringify = (\<lambda>v. ''[]''),
      ToString = (\<lambda>v. case v of JStr s \<Rightarrow> s | _ \<Rightarrow> ''undefined'')\<rparr>"

definition proposal :: "string \<Rightarrow> string \<Rightarrow> ai_response" where
  "proposal bid code =
     \<lparr>tool_calls = Some [\<lparr>tc_name = ''propose_corrected_block'',
                          tc_args = JObj [(''block_id'', JStr bid), (''corrected_code'', JStr code)],
                          tc_id = ''call_1''\<rparr>],
      content = []\<rparr>"

text \<open>LLMs that always propose the same text for the block \<open>blk\<close>.\<close>

definition llm_good :: llm_fn where
  "llm_good k prompt = Inr (proposal ''blk'' ''() => 1'')"

definition llm_bad_syntax :: llm_fn where
  "llm_bad_syntax k prompt = Inr (proposal ''blk'' ''() => { syntax error here; }'')"

definition llm_undeclared :: llm_fn where
  "llm_undeclared k prompt = Inr (proposal ''blk'' ''nonExistentVar'')"

definition boom :: js_error where
  "boom = \<lparr>ident = Thrown 9, err_name = ''Error'', message = ''boom'', stack = ''Error: boom''\<rparr>"

definition failing_fn :: fn_or_code where
  "failing_fn = Fn ''() => { throw boom }'' (\<lambda>args. Inl boom)"

definition fine_fn :: fn_or_code where
  "fine_fn = Fn ''() => 0'' (\<lambda>args. Inr (JNum 0))"

definition world0 :: "(string \<times> string) list \<Rightarrow> (string \<times> string) list world" where
  "world0 d = \<lparr>db = d, llm_calls = 0, made = 0, trace = []\<rparr>"

definition instance_of ::
  "((string \<times> string) list \<Rightarrow> string \<Rightarrow> js_error + string option) \<Rightarrow>
   ((string \<times> string) list \<Rightarrow> string \<Rightarrow> string \<Rightarrow> js_error + (string \<times> string) list) \<Rightarrow>
   int \<Rightarrow> llm_fn option \<Rightarrow> (string \<times> string) list pause" where
  "instance_of g s n l = constructor
     \<lparr>opt_getFunctionFromDb = Some g, opt_saveFunctionToDb = Some s, opt_maxAiRetries = JNum n, opt_llm = l\<rparr> None"

section \<open>Observations on a run\<close>

text \<open>The events a call added to the trace, and what they say.\<close>

definition new_events :: "'db world \<Rightarrow> 'db world \<Rightarrow> event list" where
  "new_events w w' = drop (length (trace w)) (trace w')"

definition extends_by :: "(event \<Rightarrow> bool) \<Rightarrow> 'db world \<Rightarrow> 'db world \<Rightarrow> bool" where
  "extends_by Q w w' \<longleftrightarrow>
     take (length (trace w)) (trace w') = trace w \<and> list_all Q (new_events w w')"

fun is_default_execution :: "event \<Rightarrow> bool" where
  "is_default_execution (CallDefault args) = True"
| "is_default_execution (ViaEval code) = True"
| "is_default_execution ev = False"

fun is_invoke :: "event \<Rightarrow> bool" where
  "is_invoke (Invoke c) = True"
| "is_invoke ev = False"

fun is_save :: "event \<Rightarrow> bool" where
  "is_save (Save i c) = True"
| "is_save ev = False"

fun prompts :: "event list \<Rightarrow> contextInfo list" where
  "prompts [] = []"
| "prompts (Invoke c # evs) = c # prompts evs"
| "prompts (ev # evs) = prompts evs"

fun executed_texts :: "event list \<Rightarrow> string list" where
  "executed_texts [] = []"
| "executed_texts (FunctionString c # evs) = c # executed_texts evs"
| "executed_texts (ev # evs) = executed_texts evs"

text \<open>
  A text passes the check of \<open>_attemptAICorrection\<close>: it is not empty, and building
  and calling \<open>return <text>\<close> with \<open>new Function\<close> throws nothing.
\<close>

definition passes_check :: "platform \<Rightarrow> string \<Rightarrow> bool" where
  "passes_check P c \<longleftrightarrow> c \<noteq> [] \<and> isl (outcome P False [] (''return '' @ c) []) = False"

fun save_ok :: "platform \<Rightarrow> string \<Rightarrow> event \<Rightarrow> bool" where
  "save_ok P bid (Save i c) = (i = bid \<and> passes_check P c)"
| "save_ok P bid ev = True"

definition is_fn_or_text :: "fn_or_code \<Rightarrow> bool" where
  "is_fn_or_text x = (case x of Neither v \<Rightarrow> False | _ \<Rightarrow> True)"

definition code_text :: "fn_or_code \<Rightarrow> string" where
  "code_text x = (case x of Fn src f \<Rightarrow> src | Code code \<Rightarrow> code | Neither v \<Rightarrow> [])"

text \<open>Events of a synthesized function, and the events the repair loop may add.\<close>

definition synth_event :: "event \<Rightarrow> bool" where
  "synth_event ev = (case ev of Construct a n b \<Rightarrow> True | Apply n b a \<Rightarrow> True | _ \<Rightarrow> False)"

fun repair_event :: "platform \<Rightarrow> string \<Rightarrow> event \<Rightarrow> bool" where
  "repair_event P bid (Invoke c) = True"
| "repair_event P bid (Construct a n b) = True"
| "repair_event P bid (Apply n b a) = True"
| "repair_event P bid (FunctionString c) = True"
| "repair_event P bid (Save i c) = (i = bid \<and> passes_check P c)"
| "repair_event P bid ev = False"

text \<open>Events of the outer \<open>try\<close>: anything but an LLM invocation or a save.\<close>

fun try_event :: "event \<Rightarrow> bool" where
  "try_event (Invoke c) = False"
| "try_event (Save i c) = False"
| "try_event ev = True"

text \<open>
  What the selected variant gives before the executors' \<open>catch\<close> blocks touch it (the
  stored text when it is not empty, else the default), and the prefix the executor of
  that variant writes into the message of a thrown error (none for a function).
\<close>

definition selected_outcome ::
  "platform \<Rightarrow> string option \<Rightarrow> fn_or_code \<Rightarrow> (string \<times> jsval) list \<Rightarrow> jsval list \<Rightarrow> js_error + jsval" where
  "selected_outcome P saved fnOrCode scope args =
     (case saved of
        Some (c # cs) \<Rightarrow>
          outcome P (isLikelyAsyncString (c # cs)) (arg_names (length args))
            (functionString_body (c # cs) args) args
      | _ \<Rightarrow>
         (case fnOrCode of
            Fn src f \<Rightarrow> f args
          | Code code \<Rightarrow>
              outcome P True (map fst (executionScope code scope args)) (eval_body code)
                (map snd (executionScope code scope args))
          | Neither v \<Rightarrow> Inr JUndefined))"

definition selected_prefix :: "string \<Rightarrow> string option \<Rightarrow> fn_or_code \<Rightarrow> string" where
  "selected_prefix bid saved fnOrCode =
     (case saved of
        Some (c # cs) \<Rightarrow> functionString_prefix bid
      | _ \<Rightarrow> (case fnOrCode of Code code \<Rightarrow> eval_prefix bid | _ \<Rightarrow> []))"

text \<open>
  A reply of the LLM that proposes the text \<open>c\<close> for the block and is accepted: its first
  tool call names \<open>propose_corrected_block\<close>, its arguments (parsed when they are a
  string) are an object whose \<open>block_id\<close> is the identifier and whose \<open>corrected_code\<close>
  is the text \<open>c\<close>, and \<open>c\<close> passes the check. A text is accepted by the LLM in a
  range of invocation indices when the reply to the prompt at one of them is such a
  reply. A save is checked when it is under the identifier and stores such a text.
\<close>

definition accepted_reply :: "platform \<Rightarrow> string \<Rightarrow> ai_response \<Rightarrow> string \<Rightarrow> bool" where
  "accepted_reply P bid resp c \<longleftrightarrow>
     (case tool_calls resp of
        None \<Rightarrow> False
      | Some [] \<Rightarrow> False
      | Some (tc # others) \<Rightarrow>
         (case parse_tool_args P (tc_args tc) of
            Inl e \<Rightarrow> False
          | Inr pa \<Rightarrow>
              tc_name tc = ''propose_corrected_block'' \<and> is_object pa
            \<and> get_prop pa ''block_id'' = JStr bid
            \<and> get_prop pa ''corrected_code'' = JStr c
            \<and> passes_check P c))"

definition accepted_by_llm ::
  "platform \<Rightarrow> llm_fn \<Rightarrow> string \<Rightarrow> contextInfo \<Rightarrow> nat \<Rightarrow> nat \<Rightarrow> string \<Rightarrow> bool" where
  "accepted_by_llm P l bid prompt lo hi c \<longleftrightarrow>
     (\<exists>k \<in> {lo..<hi}. case l k prompt of Inl e \<Rightarrow> False | Inr resp \<Rightarrow> accepted_reply P bid resp c)"

fun checked_save ::
  "platform \<Rightarrow> llm_fn \<Rightarrow> string \<Rightarrow> contextInfo \<Rightarrow> nat \<Rightarrow> nat \<Rightarrow> event \<Rightarrow> bool" where
  "checked_save P l bid prompt lo hi (Save i c) = (i = bid \<and> accepted_by_llm P l bid prompt lo hi c)"
| "checked_save P l bid prompt lo hi ev = True"

section \<open>Frame lemmas\<close>


lemma extends_by_refl [simp]: "extends_by Q w w"
  by (simp add: extends_by_def new_events_def)

lemma extends_by_append:
  "trace w' = trace w @ evs \<Longrightarrow> list_all Q evs \<Longrightarrow> extends_by Q w w'"
  by (simp add: extends_by_def new_events_def)

lemma extends_byD:
  "extends_by Q w w' \<Longrightarrow> trace w' = trace w @ new_events w w' \<and> list_all Q (new_events w w')"
  unfolding extends_by_def new_events_def by (metis append_take_drop_id)

lemma extends_by_trans:
  assumes "extends_by Q w w1" and "extends_by Q w1 w2"
  shows "extends_by Q w w2"
proof -
  from assms(1) obtain e1 where e1: "trace w1 = trace w @ e1" "list_all Q e1"
    using extends_byD by blast
  from assms(2) obtain e2 where e2: "trace w2 = trace w1 @ e2" "list_all Q e2"
    using extends_byD by blast
  show ?thesis using e1 e2 by (simp add: extends_by_def new_events_def)
qed

lemma emit_fields [simp]:
  "trace (emit ev w) = trace w @ [ev]"
  "db (emit ev w) = db w"
  "llm_calls (emit ev w) = llm_calls w"
  "made (emit ev w) = made w"
  by (simp_all add: emit_def)

lemma throw_new_fields [simp]:
  "trace (snd (throw_new m w)) = trace w"
  "db (snd (throw_new m w)) = db w"
  "llm_calls (snd (throw_new m w)) = llm_calls w"
  by (simp_all add: throw_new_def new_Error_def)

lemma throw_new_fails [simp]:
  "fst (throw_new m w) = Inl (fst (new_Error m w))"
  by (simp add: throw_new_def new_Error_def)

lemma message_new_Error [simp]: "message (fst (new_Error m w)) = m"
  by (simp add: new_Error_def)

lemma js_new_simps [simp]:
  "fst (js_new P a n b w) = (if a then AsyncFunction_ctor P n b else Function_ctor P n b)"
  "snd (js_new P a n b w) = emit (Construct a n b) w"
  by (simp_all add: js_new_def)

lemma js_apply_simps [simp]:
  "fst (js_apply n b f args w) = f args"
  "snd (js_apply n b f args w) = emit (Apply n b args) w"
  by (simp_all add: js_apply_def)

lemma construct_and_call_fst [simp]:
  "fst (construct_and_call P a n b args w) = outcome P a n b args"
  by (simp add: construct_and_call_def outcome_def js_new_def js_apply_def split: sum.splits)

lemma construct_and_call_frame [simp]:
  "db (snd (construct_and_call P a n b args w)) = db w"
  "llm_calls (snd (construct_and_call P a n b args w)) = llm_calls w"
  by (simp_all add: construct_and_call_def js_new_def js_apply_def split: sum.splits)

lemma construct_and_call_trace:
  "\<exists>evs. trace (snd (construct_and_call P a n b args w)) = trace w @ evs \<and> list_all synth_event evs"
  by (simp add: construct_and_call_def js_new_def js_apply_def synth_event_def split: sum.splits)

lemma executeFunctionString_fst:
  "fst (executeFunctionString P c bid args w) =
     map_sum (add_context (functionString_prefix bid)) id
       (outcome P (isLikelyAsyncString c) (arg_names (length args)) (functionString_body c args) args)"
proof -
  obtain r w1 where cc: "construct_and_call P (isLikelyAsyncString c) (arg_names (length args))
             (functionString_body c args) args (emit (FunctionString c) w) = (r, w1)"
    by (cases "construct_and_call P (isLikelyAsyncString c) (arg_names (length args))
             (functionString_body c args) args (emit (FunctionString c) w)")
  then have "r = outcome P (isLikelyAsyncString c) (arg_names (length args)) (functionString_body c args) args"
    using construct_and_call_fst [of P "isLikelyAsyncString c" "arg_names (length args)"
            "functionString_body c args" args "emit (FunctionString c) w"] by simp
  then show ?thesis using cc by (simp add: executeFunctionString_def split: sum.splits)
qed

lemma executeFunctionString_snd:
  "snd (executeFunctionString P c bid args w) =
     snd (construct_and_call P (isLikelyAsyncString c) (arg_names (length args))
             (functionString_body c args) args (emit (FunctionString c) w))"
  by (simp add: executeFunctionString_def split: prod.splits sum.splits)

lemma executeFunctionString_trace:
  "\<exists>evs. trace (snd (executeFunctionString P c bid args w)) = trace w @ FunctionString c # evs
        \<and> list_all synth_event evs"
  using construct_and_call_trace [of P "isLikelyAsyncString c" "arg_names (length args)"
            "functionString_body c args" args "emit (FunctionString c) w"]
  by (simp add: executeFunctionString_snd)

lemma executeFunctionString_frame [simp]:
  "db (snd (executeFunctionString P c bid args w)) = db w"
  "llm_calls (snd (executeFunctionString P c bid args w)) = llm_calls w"
  by (simp_all add: executeFunctionString_snd)

lemma executeCodeStringViaEval_fst:
  "fst (executeCodeStringViaEval P c bid sc args w) =
     map_sum (add_context (eval_prefix bid)) id
       (outcome P True (map fst (executionScope c sc args)) (eval_body c)
          (map snd (executionScope c sc args)))"
proof -
  let ?es = "executionScope c sc args"
  obtain r w1 where cc: "construct_and_call P True (map fst ?es) (eval_body c) (map snd ?es)
             (emit (ViaEval c) w) = (r, w1)"
    by (cases "construct_and_call P True (map fst ?es) (eval_body c) (map snd ?es) (emit (ViaEval c) w)")
  then have "r = outcome P True (map fst ?es) (eval_body c) (map snd ?es)"
    using construct_and_call_fst [of P True "map fst ?es" "eval_body c" "map snd ?es" "emit (ViaEval c) w"]
    by simp
  then show ?thesis using cc by (simp add: executeCodeStringViaEval_def Let_def split: sum.splits)
qed

lemma executeCodeStringViaEval_snd:
  "snd (executeCodeStringViaEval P c bid sc args w) =
     snd (construct_and_call P True (map fst (executionScope c sc args)) (eval_body c)
            (map snd (executionScope c sc args)) (emit (ViaEval c) w))"
  by (simp add: executeCodeStringViaEval_def Let_def split: prod.splits sum.splits)

lemma executeCodeStringViaEval_trace:
  "\<exists>evs. trace (snd (executeCodeStringViaEval P c bid sc args w)) = trace w @ ViaEval c # evs
        \<and> list_all synth_event evs"
  using construct_and_call_trace [of P True "map fst (executionScope c sc args)" "eval_body c"
            "map snd (executionScope c sc args)" "emit (ViaEval c) w"]
  by (simp add: executeCodeStringViaEval_snd)

lemma executeCodeStringViaEval_frame [simp]:
  "db (snd (executeCodeStringViaEval P c bid sc args w)) = db w"
  "llm_calls (snd (executeCodeStringViaEval P c bid sc args w)) = llm_calls w"
  by (simp_all add: executeCodeStringViaEval_snd)

lemma syntax_check_frame [simp]:
  "db (snd (syntax_check P c w)) = db w"
  "llm_calls (snd (syntax_check P c w)) = llm_calls w"
proof -
  obtain r w1 where cc: "construct_and_call P False [] (''return '' @ c) [] w = (r, w1)"
    by (cases "construct_and_call P False [] (''return '' @ c) [] w")
  then have "db w1 = db w" "llm_calls w1 = llm_calls w"
    using construct_and_call_frame [of P False "[]" "''return '' @ c" "[]" w] by simp_all
  then show "db (snd (syntax_check P c w)) = db w" "llm_calls (snd (syntax_check P c w)) = llm_calls w"
    using cc by (simp_all add: syntax_check_def split: sum.splits)
qed

lemma syntax_check_trace:
  "\<exists>evs. trace (snd (syntax_check P c w)) = trace w @ evs \<and> list_all synth_event evs"
proof -
  obtain r w1 where cc: "construct_and_call P False [] (''return '' @ c) [] w = (r, w1)"
    by (cases "construct_and_call P False [] (''return '' @ c) [] w")
  then have "\<exists>evs. trace w1 = trace w @ evs \<and> list_all synth_event evs"
    using construct_and_call_trace [of P False "[]" "''return '' @ c" "[]" w] by simp
  then show ?thesis using cc by (simp add: syntax_check_def split: sum.splits)
qed

lemma syntax_check_fst:
  "fst (syntax_check P c w) = Inr c' \<longleftrightarrow> c' = c \<and> isl (outcome P False [] (''return '' @ c) []) = False"
proof -
  obtain r w1 where cc: "construct_and_call P False [] (''return '' @ c) [] w = (r, w1)"
    by (cases "construct_and_call P False [] (''return '' @ c) [] w")
  then have "r = outcome P False [] (''return '' @ c) []"
    using construct_and_call_fst [of P False "[]" "''return '' @ c" "[]" w] by simp
  then show ?thesis using cc by (auto simp: syntax_check_def split: sum.splits)
qed

lemma usable_code_Some: "usable_code v = Some c \<Longrightarrow> v = JStr c \<and> c \<noteq> []"
  by (auto simp: usable_code_def split: jsval.splits if_splits)
lemma attemptAICorrection_frame [simp]:
  "db (snd (attemptAICorrection P l bid d orig err args a w)) = db w"
  "llm_calls (snd (attemptAICorrection P l bid d orig err args a w)) = Suc (llm_calls w)"
  by (simp_all add: attemptAICorrection_def Let_def split: sum.splits option.splits list.splits)

lemma attemptAICorrection_trace:
  "\<exists>evs. trace (snd (attemptAICorrection P l bid d orig err args a w))
          = trace w @ Invoke (buildCorrectionPrompt P bid d orig err args) # evs
        \<and> list_all synth_event evs"
proof -
  let ?w0 = "(emit (Invoke (buildCorrectionPrompt P bid d orig err args)) w)\<lparr>llm_calls := Suc (llm_calls w)\<rparr>"
  have t0: "trace ?w0 = trace w @ [Invoke (buildCorrectionPrompt P bid d orig err args)]"
    by simp
  have sc: "\<And>c. \<exists>evs. trace (snd (syntax_check P c ?w0))
                 = trace w @ Invoke (buildCorrectionPrompt P bid d orig err args) # evs
               \<and> list_all synth_event evs"
  proof -
    fix c
    from syntax_check_trace [of P c ?w0] obtain evs where
      "trace (snd (syntax_check P c ?w0)) = trace ?w0 @ evs" "list_all synth_event evs" by blast
    then show "\<exists>evs. trace (snd (syntax_check P c ?w0))
                 = trace w @ Invoke (buildCorrectionPrompt P bid d orig err args) # evs
               \<and> list_all synth_event evs"
      by (simp add: t0)
  qed
  show ?thesis
    using sc
    by (simp add: attemptAICorrection_def Let_def split: sum.splits option.splits list.splits)
qed

lemma attemptAICorrection_accepts:
  "fst (attemptAICorrection P l bid d orig err args a w) = Inr c \<Longrightarrow> passes_check P c"
  by (auto simp: attemptAICorrection_def Let_def passes_check_def syntax_check_fst
           split: sum.splits option.splits list.splits if_splits
           dest!: usable_code_Some)
lemma synth_repair: "list_all synth_event evs \<Longrightarrow> list_all (repair_event P bid) evs"
  by (induction evs) (auto simp: synth_event_def split: event.splits)

lemma prompts_append [simp]: "prompts (xs @ ys) = prompts xs @ prompts ys"
  by (induction xs rule: prompts.induct) simp_all

lemma prompts_synth: "list_all synth_event evs \<Longrightarrow> prompts evs = []"
  by (induction evs rule: prompts.induct) (simp_all add: synth_event_def)

lemma new_events_append: "trace w' = trace w @ evs \<Longrightarrow> new_events w w' = evs"
  by (simp add: new_events_def)

lemma correction_try_llm_calls [simp]:
  "llm_calls (snd (correction_try P this l bid d orig err args a w)) = Suc (llm_calls w)"
proof (cases "attemptAICorrection P l bid d orig err args a w")
  case (Pair r w1)
  have "llm_calls w1 = Suc (llm_calls w)"
    using attemptAICorrection_frame(2) [of P l bid d orig err args a w] Pair by simp
  then show ?thesis
    using Pair by (simp add: correction_try_def Let_def split: sum.splits)
qed

lemma correction_try_extends:
  "extends_by (repair_event P bid) w (snd (correction_try P this l bid d orig err args a w))"
proof (cases "attemptAICorrection P l bid d orig err args a w")
  case (Pair r w1)
  from attemptAICorrection_trace [of P l bid d orig err args a w] Pair
  obtain evs where evs: "trace w1 = trace w @ Invoke (buildCorrectionPrompt P bid d orig err args) # evs"
    "list_all synth_event evs" by auto
  have e1: "extends_by (repair_event P bid) w w1"
    by (rule extends_by_append [OF evs(1)]) (simp add: synth_repair [OF evs(2)])
  show ?thesis
  proof (cases r)
    case (Inl e)
    then show ?thesis using Pair e1 by (simp add: correction_try_def)
  next
    case (Inr c)
    then have pc: "passes_check P c"
      using attemptAICorrection_accepts [of P l bid d orig err args a w c] Pair by simp
    let ?w2 = "emit (Save bid c) w1"
    have e2: "extends_by (repair_event P bid) w1 ?w2"
      by (rule extends_by_append [where evs = "[Save bid c]"]) (simp_all add: pc)
    show ?thesis
    proof (cases "saveFunctionToDb this (db ?w2) bid c")
      case (Inl e)
      then show ?thesis
        using Pair Inr extends_by_trans [OF e1 e2] by (simp add: correction_try_def Let_def)
    next
      case (Inr dnew)
      from executeFunctionString_trace [of P c bid args "?w2\<lparr>db := dnew\<rparr>"]
      obtain es where es: "trace (snd (executeFunctionString P c bid args (?w2\<lparr>db := dnew\<rparr>)))
           = trace (?w2\<lparr>db := dnew\<rparr>) @ FunctionString c # es" "list_all synth_event es" by blast
      have e3: "extends_by (repair_event P bid) ?w2 (snd (executeFunctionString P c bid args (?w2\<lparr>db := dnew\<rparr>)))"
        by (rule extends_by_append [where evs = "FunctionString c # es"])
           (use es in \<open>simp_all add: synth_repair\<close>)
      show ?thesis
        using Pair \<open>r = Inr c\<close> Inr extends_by_trans [OF extends_by_trans [OF e1 e2] e3]
        by (simp add: correction_try_def Let_def)
    qed
  qed
qed

lemma correction_loop_done:
  "\<not> a \<le> maxAiRetries this \<Longrightarrow>
   correction_loop P this l bid d orig err args a w = (Inr JUndefined, w)"
  by (simp add: correction_loop.simps)

lemma correction_loop_ok:
  "a \<le> maxAiRetries this \<Longrightarrow> correction_try P this l bid d orig err args a w = (Inr v, w1) \<Longrightarrow>
   correction_loop P this l bid d orig err args a w = (Inr v, w1)"
  by (simp add: correction_loop.simps)

lemma correction_loop_last:
  "a = maxAiRetries this \<Longrightarrow> correction_try P this l bid d orig err args a w = (Inl e, w1) \<Longrightarrow>
   correction_loop P this l bid d orig err args a w =
     throw_new (''Max AI retries reached for block ID: '' @ bid @ ''. Last AI error: '' @ message e
                @ ''. Original error: '' @ message err) w1"
  by (simp add: correction_loop.simps)

lemma correction_loop_more:
  "a < maxAiRetries this \<Longrightarrow> correction_try P this l bid d orig err args a w = (Inl e, w1) \<Longrightarrow>
   correction_loop P this l bid d orig err args a w =
     correction_loop P this l bid d orig err args (a + 1) w1"
  by (subst correction_loop.simps) simp

lemma correction_loop_extends:
  "extends_by (repair_event P bid) w (snd (correction_loop P this l bid d orig err args a w))"
proof (induction "nat (maxAiRetries this + 1 - a)" arbitrary: a w)
  case 0
  then have "\<not> a \<le> maxAiRetries this" by simp
  then show ?case by (simp add: correction_loop_done)
next
  case (Suc n)
  then have le: "a \<le> maxAiRetries this" by simp
  obtain r w1 where ct: "correction_try P this l bid d orig err args a w = (r, w1)"
    by (cases "correction_try P this l bid d orig err args a w")
  have e1: "extends_by (repair_event P bid) w w1"
    using correction_try_extends [of P bid w this l d orig err args a] ct by simp
  show ?case
  proof (cases r)
    case (Inr v)
    then show ?thesis using correction_loop_ok [OF le] ct e1 by simp
  next
    case (Inl e)
    show ?thesis
    proof (cases "a = maxAiRetries this")
      case True
      have "extends_by (repair_event P bid) w1 (snd (throw_new
              (''Max AI retries reached for block ID: '' @ bid @ ''. Last AI error: '' @ message e
                @ ''. Original error: '' @ message err) w1 :: (js_error + jsval) \<times> 'a world))"
        by (simp add: extends_by_def new_events_def)
      from extends_by_trans [OF e1 this] show ?thesis
        using correction_loop_last [OF True] ct Inl by simp
    next
      case False
      then have lt: "a < maxAiRetries this" using le by simp
      have "n = nat (maxAiRetries this + 1 - (a + 1))" using Suc(2) by simp
      from Suc(1) [OF this]
      have "extends_by (repair_event P bid) w1
              (snd (correction_loop P this l bid d orig err args (a + 1) w1))" .
      from extends_by_trans [OF e1 this] show ?thesis
        using correction_loop_more [OF lt] ct Inl by simp
    qed
  qed
qed
lemma extends_by_mono:
  "extends_by Q w w' \<Longrightarrow> (\<And>ev. Q ev \<Longrightarrow> Q' ev) \<Longrightarrow> extends_by Q' w w'"
  unfolding extends_by_def by (auto simp: list_all_iff)

lemma synth_try: "list_all synth_event evs \<Longrightarrow> list_all try_event evs"
  by (induction evs) (auto simp: synth_event_def split: event.splits)

lemma run_unfold:
  "is_fn_or_text fnOrCode \<Longrightarrow>
   run P this bid description fnOrCode scope args w =
     (case run_try P this bid fnOrCode scope args w of
        (Inr v, w1) \<Rightarrow> (Inr v, w1)
      | (Inl error, w1) \<Rightarrow>
         (case llm this of
            Some the_llm \<Rightarrow>
              correction_loop P this the_llm bid description (code_text fnOrCode) error args 1 w1
          | None \<Rightarrow> (Inl error, w1)))"
  by (cases fnOrCode)
     (auto simp add: run_def is_fn_or_text_def code_text_def split: prod.splits sum.splits option.splits)

lemma run_invalid:
  "\<not> is_fn_or_text fnOrCode \<Longrightarrow>
   run P this bid description fnOrCode scope args w =
     throw_new ''[Pause] Invalid type for fnOrCode: must be a function or string.'' w"
  by (cases fnOrCode) (simp_all add: run_def is_fn_or_text_def)

lemma run_try_persisted:
  "getFunctionFromDb this (db w) bid = Inr (Some T) \<Longrightarrow> T \<noteq> [] \<Longrightarrow>
   run_try P this bid fnOrCode scope args w = executeFunctionString P T bid args (emit (Fetch bid) w)"
  by (cases T) (simp_all add: run_try_def Let_def)

lemma run_try_frame [simp]:
  "db (snd (run_try P this bid fnOrCode scope args w)) = db w"
  "llm_calls (snd (run_try P this bid fnOrCode scope args w)) = llm_calls w"
  by (simp_all add: run_try_def Let_def split: sum.splits option.splits list.splits fn_or_code.splits)

lemma run_try_trace:
  "\<exists>evs. trace (snd (run_try P this bid fnOrCode scope args w)) = trace w @ Fetch bid # evs
         \<and> list_all try_event evs"
proof -
  let ?w0 = "emit (Fetch bid) w"
  have t0: "trace ?w0 = trace w @ [Fetch bid]" by simp
  have a: "\<And>c. \<exists>evs. trace (snd (executeFunctionString P c bid args ?w0)) = trace w @ Fetch bid # evs
         \<and> list_all try_event evs"
  proof -
    fix c
    from executeFunctionString_trace [of P c bid args ?w0] obtain es where
      "trace (snd (executeFunctionString P c bid args ?w0)) = trace ?w0 @ FunctionString c # es"
      "list_all synth_event es" by blast
    then show "\<exists>evs. trace (snd (executeFunctionString P c bid args ?w0)) = trace w @ Fetch bid # evs
         \<and> list_all try_event evs"
      by (simp add: synth_try)
  qed
  have b: "\<And>c. \<exists>evs. trace (snd (executeCodeStringViaEval P c bid scope args ?w0)) = trace w @ Fetch bid # evs
         \<and> list_all try_event evs"
  proof -
    fix c
    from executeCodeStringViaEval_trace [of P c bid scope args ?w0] obtain es where
      "trace (snd (executeCodeStringViaEval P c bid scope args ?w0)) = trace ?w0 @ ViaEval c # es"
      "list_all synth_event es" by blast
    then show "\<exists>evs. trace (snd (executeCodeStringViaEval P c bid scope args ?w0)) = trace w @ Fetch bid # evs
         \<and> list_all try_event evs"
      by (simp add: synth_try)
  qed
  show ?thesis
    using a b
    by (simp add: run_try_def Let_def split: sum.splits option.splits list.splits fn_or_code.splits)
qed

lemma run_try_extends: "extends_by try_event w (snd (run_try P this bid fnOrCode scope args w))"
proof -
  from run_try_trace [of P this bid fnOrCode scope args w] obtain evs where
    "trace (snd (run_try P this bid fnOrCode scope args w)) = trace w @ Fetch bid # evs"
    "list_all try_event evs" by blast
  then show ?thesis
    by (intro extends_by_append [where evs = "Fetch bid # evs"]) simp_all
qed

lemma repair_not_default: "repair_event P bid ev \<Longrightarrow> \<not> is_default_execution ev"
  by (cases ev) simp_all

lemma synth_not_default: "synth_event ev \<Longrightarrow> \<not> is_default_execution ev"
  by (cases ev) (simp_all add: synth_event_def)

lemma repair_save_ok: "repair_event P bid ev \<Longrightarrow> save_ok P bid ev"
  by (cases ev) simp_all

lemma try_save_ok: "try_event ev \<Longrightarrow> save_ok P bid ev"
  by (cases ev) simp_all

lemma try_not_save: "try_event ev \<Longrightarrow> \<not> is_save ev \<and> \<not> is_invoke ev"
  by (cases ev) simp_all

lemma run_after_try:
  assumes "is_fn_or_text fnOrCode"
  shows "extends_by (repair_event P bid) (snd (run_try P this bid fnOrCode scope args w))
           (snd (run P this bid description fnOrCode scope args w))"
proof (cases "run_try P this bid fnOrCode scope args w")
  case (Pair r w1)
  show ?thesis
  proof (cases r)
    case (Inr v)
    then show ?thesis using Pair by (simp add: run_unfold [OF assms])
  next
    case (Inl error)
    show ?thesis
    proof (cases "llm this")
      case None
      then show ?thesis using Pair Inl by (simp add: run_unfold [OF assms])
    next
      case (Some the_llm)
      then show ?thesis
        using Pair Inl correction_loop_extends [of P bid w1 this the_llm description "code_text fnOrCode" error args 1]
        by (simp add: run_unfold [OF assms])
    qed
  qed
qed
lemma add_context_empty [simp]: "add_context [] e = e"
  by (simp add: add_context_def)

lemma add_context_ident [simp]: "ident (add_context p e) = ident e"
  by (simp add: add_context_def)

lemma run_try_fst:
  "getFunctionFromDb this (db w) bid = Inr saved \<Longrightarrow>
   fst (run_try P this bid fnOrCode scope args w) =
     map_sum (add_context (selected_prefix bid saved fnOrCode)) id
       (selected_outcome P saved fnOrCode scope args)"
  by (cases saved; cases "the saved"; cases fnOrCode; cases "selected_outcome P saved fnOrCode scope args")
     (simp_all add: run_try_def Let_def selected_outcome_def selected_prefix_def
        executeFunctionString_fst executeCodeStringViaEval_fst)

lemma run_try_fetch_fails:
  "getFunctionFromDb this (db w) bid = Inl e \<Longrightarrow>
   run_try P this bid fnOrCode scope args w = (Inl e, emit (Fetch bid) w)"
  by (simp add: run_try_def Let_def)
lemma correction_try_rejected:
  assumes "fst (attemptAICorrection P l bid d orig err args a w) = Inl e"
  shows "correction_try P this l bid d orig err args a w
           = (Inl e, snd (attemptAICorrection P l bid d orig err args a w))"
  using assms by (cases "attemptAICorrection P l bid d orig err args a w") (simp add: correction_try_def)

lemma correction_loop_all_rejected:
  fixes this :: "'db pause"
  assumes rej: "\<And>a (w :: 'db world). \<exists>e. fst (attemptAICorrection P l bid d orig err args a w) = Inl e
                        \<and> message e = msg (llm_calls w)"
  shows "a \<le> maxAiRetries this \<Longrightarrow> n = nat (maxAiRetries this - a) \<Longrightarrow>
     \<exists>e w'. correction_loop P this l bid d orig err args a (w :: 'db world) = (Inl e, w')
       \<and> message e = ''Max AI retries reached for block ID: '' @ bid @ ''. Last AI error: ''
                      @ msg (llm_calls w + n) @ ''. Original error: '' @ message err
       \<and> llm_calls w' = llm_calls w + Suc n \<and> db w' = db w
       \<and> trace w' = trace w @ new_events w w'
       \<and> prompts (new_events w w') = replicate (Suc n) (buildCorrectionPrompt P bid d orig err args)"
proof (induction n arbitrary: a w)
  case 0
  then have last: "a = maxAiRetries this" by simp
  let ?w1 = "snd (attemptAICorrection P l bid d orig err args a w)"
  from rej [of a w] obtain e where e: "fst (attemptAICorrection P l bid d orig err args a w) = Inl e"
    "message e = msg (llm_calls w)" by blast
  from attemptAICorrection_trace [of P l bid d orig err args a w] obtain evs where
    evs: "trace ?w1 = trace w @ Invoke (buildCorrectionPrompt P bid d orig err args) # evs"
    "list_all synth_event evs" by blast
  let ?m = "''Max AI retries reached for block ID: '' @ bid @ ''. Last AI error: '' @ message e
                @ ''. Original error: '' @ message err"
  let ?r = "throw_new ?m ?w1 :: (js_error + jsval) \<times> 'db world"
  have loop: "correction_loop P this l bid d orig err args a w = ?r"
    by (rule correction_loop_last [OF last correction_try_rejected [OF e(1)]])
  have tr: "trace (snd ?r) = trace w @ Invoke (buildCorrectionPrompt P bid d orig err args) # evs"
    using evs(1) by simp
  have "correction_loop P this l bid d orig err args a w = (Inl (fst (new_Error ?m ?w1)), snd ?r)"
    using loop by (simp add: throw_new_def new_Error_def)
  moreover have "message (fst (new_Error ?m ?w1)) = ''Max AI retries reached for block ID: '' @ bid
       @ ''. Last AI error: '' @ msg (llm_calls w + 0) @ ''. Original error: '' @ message err"
    using e(2) by simp
  moreover have "llm_calls (snd ?r) = llm_calls w + Suc 0" by simp
  moreover have "db (snd ?r) = db w" by simp
  moreover have "trace (snd ?r) = trace w @ new_events w (snd ?r)"
    by (subst new_events_append [OF tr]) (rule tr)
  moreover have "prompts (new_events w (snd ?r))
                   = replicate (Suc 0) (buildCorrectionPrompt P bid d orig err args)"
    by (subst new_events_append [OF tr]) (simp add: prompts_synth [OF evs(2)])
  ultimately show ?case by blast
next
  case (Suc n)
  then have lt: "a < maxAiRetries this" by simp
  let ?w1 = "snd (attemptAICorrection P l bid d orig err args a w)"
  from rej [of a w] obtain e where e: "fst (attemptAICorrection P l bid d orig err args a w) = Inl e"
    by blast
  from attemptAICorrection_trace [of P l bid d orig err args a w] obtain evs where
    evs: "trace ?w1 = trace w @ Invoke (buildCorrectionPrompt P bid d orig err args) # evs"
    "list_all synth_event evs" by blast
  have loop: "correction_loop P this l bid d orig err args a w
                = correction_loop P this l bid d orig err args (a + 1) ?w1"
    by (rule correction_loop_more [OF lt correction_try_rejected [OF e]])
  have le': "a + 1 \<le> maxAiRetries this" using lt by simp
  have n': "n = nat (maxAiRetries this - (a + 1))" using Suc(3) by simp
  from Suc(1) [OF le' n', of ?w1] obtain e' w' where
    r: "correction_loop P this l bid d orig err args (a + 1) ?w1 = (Inl e', w')"
    and m: "message e' = ''Max AI retries reached for block ID: '' @ bid @ ''. Last AI error: ''
                      @ msg (llm_calls ?w1 + n) @ ''. Original error: '' @ message err"
    and c: "llm_calls w' = llm_calls ?w1 + Suc n" and d: "db w' = db ?w1"
    and t: "trace w' = trace ?w1 @ new_events ?w1 w'"
    and p: "prompts (new_events ?w1 w') = replicate (Suc n) (buildCorrectionPrompt P bid d orig err args)"
    by blast
  have tr: "trace w' = trace w @ (Invoke (buildCorrectionPrompt P bid d orig err args) # evs
                                   @ new_events ?w1 w')"
    using t evs(1) by simp
  have "correction_loop P this l bid d orig err args a w = (Inl e', w')" using loop r by simp
  moreover have "message e' = ''Max AI retries reached for block ID: '' @ bid @ ''. Last AI error: ''
                      @ msg (llm_calls w + Suc n) @ ''. Original error: '' @ message err"
    using m by simp
  moreover have "llm_calls w' = llm_calls w + Suc (Suc n)" using c by simp
  moreover have "db w' = db w" using d by simp
  moreover have "trace w' = trace w @ new_events w w'"
    by (subst new_events_append [OF tr]) (rule tr)
  moreover have "prompts (new_events w w')
                   = replicate (Suc (Suc n)) (buildCorrectionPrompt P bid d orig err args)"
    by (subst new_events_append [OF tr]) (simp add: prompts_synth [OF evs(2)] p)
  ultimately show ?case by blast
qed
lemma prompts_try: "list_all try_event evs \<Longrightarrow> prompts evs = []"
  by (induction evs rule: prompts.induct) simp_all
lemma construct_and_call_snd:
  "snd (construct_and_call P a n b args w) =
     (case (if a then AsyncFunction_ctor P n b else Function_ctor P n b) of
        Inl e \<Rightarrow> emit (Construct a n b) w
      | Inr fn \<Rightarrow> emit (Apply n b args) (emit (Construct a n b) w))"
  by (simp add: construct_and_call_def js_new_def js_apply_def split: sum.splits)

lemma outcome_value:
  "outcome P a n b args = Inr v \<Longrightarrow>
   \<exists>fn. (if a then AsyncFunction_ctor P n b else Function_ctor P n b) = Inr fn \<and> fn args = Inr v"
  by (auto simp: outcome_def split: sum.splits if_splits)

lemma executeFunctionString_value:
  assumes "outcome P (isLikelyAsyncString c) (arg_names (length args)) (functionString_body c args) args
             = Inr v"
  shows "executeFunctionString P c bid args w =
           (Inr v, emit (Apply (arg_names (length args)) (functionString_body c args) args)
                     (emit (Construct (isLikelyAsyncString c) (arg_names (length args))
                              (functionString_body c args))
                        (emit (FunctionString c) w)))"
proof -
  from outcome_value [OF assms] obtain fn where
    fn: "(if isLikelyAsyncString c then AsyncFunction_ctor P (arg_names (length args))
            (functionString_body c args)
          else Function_ctor P (arg_names (length args)) (functionString_body c args)) = Inr fn"
    by blast
  have s: "snd (executeFunctionString P c bid args w) =
             emit (Apply (arg_names (length args)) (functionString_body c args) args)
               (emit (Construct (isLikelyAsyncString c) (arg_names (length args))
                        (functionString_body c args))
                  (emit (FunctionString c) w))"
    using fn by (simp add: executeFunctionString_snd construct_and_call_snd)
  have f: "fst (executeFunctionString P c bid args w) = Inr v"
    using assms by (simp add: executeFunctionString_fst)
  show ?thesis using s f by (metis prod.collapse)
qed

lemma executeFunctionString_trace3:
  "\<exists>evs. trace (snd (executeFunctionString P c bid args w)) =
       trace w @ FunctionString c
         # Construct (isLikelyAsyncString c) (arg_names (length args)) (functionString_body c args)
         # evs
     \<and> list_all synth_event evs
     \<and> (isl (if isLikelyAsyncString c
               then AsyncFunction_ctor P (arg_names (length args)) (functionString_body c args)
               else Function_ctor P (arg_names (length args)) (functionString_body c args)) = False
          \<longrightarrow> evs = [Apply (arg_names (length args)) (functionString_body c args) args])"
  by (auto simp: executeFunctionString_snd construct_and_call_snd synth_event_def split: sum.splits)
lemma attemptAICorrection_accepted_reply:
  "fst (attemptAICorrection P l bid d orig err args a w) = Inr c \<Longrightarrow>
   (case l (llm_calls w) (buildCorrectionPrompt P bid d orig err args) of
      Inl e \<Rightarrow> False
    | Inr resp \<Rightarrow> accepted_reply P bid resp c)"
  by (auto simp: attemptAICorrection_def Let_def accepted_reply_def passes_check_def syntax_check_fst
           split: sum.splits option.splits list.splits if_splits
           dest!: usable_code_Some)

lemma accepted_by_llm_mono:
  "accepted_by_llm P l bid p lo hi c \<Longrightarrow> lo' \<le> lo \<Longrightarrow> hi \<le> hi' \<Longrightarrow>
   accepted_by_llm P l bid p lo' hi' c"
  unfolding accepted_by_llm_def by (meson atLeastLessThan_iff le_trans less_le_trans)

lemma checked_save_mono:
  "checked_save P l bid p lo hi ev \<Longrightarrow> lo' \<le> lo \<Longrightarrow> hi \<le> hi' \<Longrightarrow>
   checked_save P l bid p lo' hi' ev"
  by (cases ev) (auto intro: accepted_by_llm_mono)

lemma synth_checked: "list_all synth_event evs \<Longrightarrow> list_all (checked_save P l bid p lo hi) evs"
  by (induction evs) (auto simp: synth_event_def split: event.splits)

lemma try_checked: "try_event ev \<Longrightarrow> checked_save P l bid p lo hi ev"
  by (cases ev) simp_all

lemma correction_try_checked:
  "extends_by (checked_save P l bid (buildCorrectionPrompt P bid d orig err args)
                 (llm_calls w) (Suc (llm_calls w)))
     w (snd (correction_try P this l bid d orig err args a w))"
proof (cases "attemptAICorrection P l bid d orig err args a w")
  case (Pair r w1)
  let ?p = "buildCorrectionPrompt P bid d orig err args"
  let ?Q = "checked_save P l bid ?p (llm_calls w) (Suc (llm_calls w))"
  from attemptAICorrection_trace [of P l bid d orig err args a w] Pair
  obtain evs where evs: "trace w1 = trace w @ Invoke ?p # evs" "list_all synth_event evs" by auto
  have e1: "extends_by ?Q w w1"
    by (rule extends_by_append [OF evs(1)]) (simp add: synth_checked [OF evs(2)])
  show ?thesis
  proof (cases r)
    case (Inl e)
    then show ?thesis using Pair e1 by (simp add: correction_try_def)
  next
    case (Inr c)
    have "case l (llm_calls w) ?p of Inl e \<Rightarrow> False | Inr resp \<Rightarrow> accepted_reply P bid resp c"
      using attemptAICorrection_accepted_reply [of P l bid d orig err args a w c] Pair Inr by simp
    then have ac: "accepted_by_llm P l bid ?p (llm_calls w) (Suc (llm_calls w)) c"
      unfolding accepted_by_llm_def by auto
    let ?w2 = "emit (Save bid c) w1"
    have e2: "extends_by ?Q w1 ?w2"
      by (rule extends_by_append [where evs = "[Save bid c]"]) (simp_all add: ac)
    show ?thesis
    proof (cases "saveFunctionToDb this (db ?w2) bid c")
      case (Inl e)
      then show ?thesis
        using Pair Inr extends_by_trans [OF e1 e2] by (simp add: correction_try_def Let_def)
    next
      case (Inr dnew)
      from executeFunctionString_trace [of P c bid args "?w2\<lparr>db := dnew\<rparr>"]
      obtain es where es: "trace (snd (executeFunctionString P c bid args (?w2\<lparr>db := dnew\<rparr>)))
           = trace (?w2\<lparr>db := dnew\<rparr>) @ FunctionString c # es" "list_all synth_event es" by blast
      have e3: "extends_by ?Q ?w2 (snd (executeFunctionString P c bid args (?w2\<lparr>db := dnew\<rparr>)))"
        by (rule extends_by_append [where evs = "FunctionString c # es"])
           (use es in \<open>simp_all add: synth_checked\<close>)
      show ?thesis
        using Pair \<open>r = Inr c\<close> Inr extends_by_trans [OF extends_by_trans [OF e1 e2] e3]
        by (simp add: correction_try_def Let_def)
    qed
  qed
qed

lemma correction_loop_checked:
  "llm_calls w \<le> llm_calls (snd (correction_loop P this l bid d orig err args a w))
   \<and> extends_by (checked_save P l bid (buildCorrectionPrompt P bid d orig err args)
                   (llm_calls w) (llm_calls (snd (correction_loop P this l bid d orig err args a w))))
       w (snd (correction_loop P this l bid d orig err args a w))"
proof (induction "nat (maxAiRetries this + 1 - a)" arbitrary: a w)
  case 0
  then have "\<not> a \<le> maxAiRetries this" by simp
  then show ?case by (simp add: correction_loop_done)
next
  case (Suc n)
  let ?p = "buildCorrectionPrompt P bid d orig err args"
  from Suc have le: "a \<le> maxAiRetries this" by simp
  obtain r w1 where ct: "correction_try P this l bid d orig err args a w = (r, w1)"
    by (cases "correction_try P this l bid d orig err args a w")
  have c1: "llm_calls w1 = Suc (llm_calls w)"
    using correction_try_llm_calls [of P this l bid d orig err args a w] ct by simp
  have e1: "extends_by (checked_save P l bid ?p (llm_calls w) (Suc (llm_calls w))) w w1"
    using correction_try_checked [of P l bid d orig err args w this a] ct by simp
  show ?case
  proof (cases r)
    case (Inr v)
    then show ?thesis using correction_loop_ok [OF le] ct e1 c1 by simp
  next
    case (Inl e)
    show ?thesis
    proof (cases "a = maxAiRetries this")
      case True
      let ?r = "throw_new (''Max AI retries reached for block ID: '' @ bid @ ''. Last AI error: ''
                  @ message e @ ''. Original error: '' @ message err) w1
                :: (js_error + jsval) \<times> 'a world"
      have "extends_by (checked_save P l bid ?p (llm_calls w) (Suc (llm_calls w))) w1 (snd ?r)"
        by (simp add: extends_by_def new_events_def)
      from extends_by_trans [OF e1 this] show ?thesis
        using correction_loop_last [OF True] ct Inl c1 by simp
    next
      case False
      then have lt: "a < maxAiRetries this" using le by simp
      let ?w' = "snd (correction_loop P this l bid d orig err args (a + 1) w1)"
      have "n = nat (maxAiRetries this + 1 - (a + 1))" using Suc(2) by simp
      from Suc(1) [OF this, of w1]
      have ih: "llm_calls w1 \<le> llm_calls ?w'"
        "extends_by (checked_save P l bid ?p (llm_calls w1) (llm_calls ?w')) w1 ?w'" by simp_all
      have a1: "extends_by (checked_save P l bid ?p (llm_calls w) (llm_calls ?w')) w w1"
        by (rule extends_by_mono [OF e1]) (rule checked_save_mono, assumption, simp, use ih(1) c1 in simp)
      have a2: "extends_by (checked_save P l bid ?p (llm_calls w) (llm_calls ?w')) w1 ?w'"
        by (rule extends_by_mono [OF ih(2)]) (rule checked_save_mono, assumption, use c1 in simp, simp)
      have eq: "correction_loop P this l bid d orig err args a w
                  = correction_loop P this l bid d orig err args (a + 1) w1"
        using correction_loop_more [OF lt] ct Inl by simp
      show ?thesis
        unfolding eq using extends_by_trans [OF a1 a2] ih(1) c1 by simp
    qed
  qed
qed

section \<open>The claims\<close>

text \<open>
  C1 (the repair context of a failing stored text): the store holds the text
  \<open>() => nonExistentDbVar\<close> for the block, the caller's default is \<open>() => 0\<close>. The stored
  text is what runs and fails, and the prompt of the one correction attempt carries the
  default's text as original code, not the stored text: \<open>originalCodeString\<close> is set
  once from \<open>fnOrCode\<close> and never from the fetched text.
\<close>

theorem stored_failure_prompt_has_default_text:
  "executed_texts (trace (snd (run demo_platform (instance_of mem_get mem_save 1 (Some llm_good)) ''blk''
       ''desc'' fine_fn [] [] (world0 [(''blk'', ''() => nonExistentDbVar'')]))))
     = [''() => nonExistentDbVar'', ''() => 1'']
   \<and> map ci_originalCode (prompts (trace (snd (run demo_platform
         (instance_of mem_get mem_save 1 (Some llm_good)) ''blk''
         ''desc'' fine_fn [] [] (world0 [(''blk'', ''() => nonExistentDbVar'')])))))
     = [''() => 0'']"
  by code_simp



text \<open>
  C3 (bounded retries): an LLM is configured, \<open>maxAiRetries = N\<close> with \<open>N \<ge> 1\<close>, the
  selected variant fails with \<open>error\<close>, and every correction attempt is rejected (the
  attempt made as the \<open>k\<close>-th LLM invocation fails with message \<open>msg k\<close>). Then \<open>run\<close>
  invokes the LLM exactly \<open>N\<close> times and throws an error whose message names the block,
  the message of the last rejected attempt and the message of \<open>error\<close>.
\<close>

theorem bounded_retries_exhausted:
  fixes this :: "'db pause"
  assumes "llm this = Some l" and "1 \<le> maxAiRetries this" and "is_fn_or_text fnOrCode"
    and "run_try P this bid fnOrCode scope args w = (Inl error, w1)"
    and "\<And>a (w :: 'db world).
           \<exists>e. fst (attemptAICorrection P l bid description (code_text fnOrCode) error args a w) = Inl e
              \<and> message e = msg (llm_calls w)"
  shows "\<exists>e w'. run P this bid description fnOrCode scope args w = (Inl e, w')
       \<and> message e = ''Max AI retries reached for block ID: '' @ bid @ ''. Last AI error: ''
                      @ msg (llm_calls w + nat (maxAiRetries this - 1))
                      @ ''. Original error: '' @ message error
       \<and> llm_calls w' = llm_calls w + nat (maxAiRetries this)
       \<and> length (prompts (new_events w w')) = nat (maxAiRetries this)"
proof -
  have w1: "w1 = snd (run_try P this bid fnOrCode scope args w)" using assms(4) by simp
  from run_try_trace [of P this bid fnOrCode scope args w] obtain evs where
    evs: "trace w1 = trace w @ Fetch bid # evs" "list_all try_event evs" unfolding w1 by blast
  have c1: "llm_calls w1 = llm_calls w" unfolding w1 by simp
  have run_eq: "run P this bid description fnOrCode scope args w
          = correction_loop P this l bid description (code_text fnOrCode) error args 1 w1"
    using assms(1,4) by (simp add: run_unfold [OF assms(3)])
  from correction_loop_all_rejected [where this = this and msg = msg, OF assms(5) assms(2) refl, of w1]
  obtain e w' where
    r: "correction_loop P this l bid description (code_text fnOrCode) error args 1 w1 = (Inl e, w')"
    and m: "message e = ''Max AI retries reached for block ID: '' @ bid @ ''. Last AI error: ''
                      @ msg (llm_calls w1 + nat (maxAiRetries this - 1))
                      @ ''. Original error: '' @ message error"
    and c: "llm_calls w' = llm_calls w1 + Suc (nat (maxAiRetries this - 1))"
    and t: "trace w' = trace w1 @ new_events w1 w'"
    and p: "prompts (new_events w1 w') = replicate (Suc (nat (maxAiRetries this - 1)))
              (buildCorrectionPrompt P bid description (code_text fnOrCode) error args)"
    by blast
  have n: "Suc (nat (maxAiRetries this - 1)) = nat (maxAiRetries this)" using assms(2) by simp
  have tr: "trace w' = trace w @ (Fetch bid # evs @ new_events w1 w')"
    using t evs(1) by simp
  have "length (prompts (new_events w w')) = nat (maxAiRetries this)"
    by (subst new_events_append [OF tr]) (simp add: prompts_try [OF evs(2)] p n)
  moreover have "llm_calls w' = llm_calls w + nat (maxAiRetries this)" using c c1 n by simp
  ultimately show ?thesis using run_eq r m c1 by simp
qed

theorem bounded_retries_exhausted_witness:
  "llm (instance_of mem_get mem_save 2 (Some llm_bad_syntax)) = Some llm_bad_syntax
   \<and> (1::int) \<le> maxAiRetries (instance_of mem_get mem_save 2 (Some llm_bad_syntax))
   \<and> is_fn_or_text failing_fn
   \<and> run_try demo_platform (instance_of mem_get mem_save 2 (Some llm_bad_syntax)) ''blk'' failing_fn [] []
        (world0 []) = (Inl boom, \<lparr>db = [], llm_calls = 0, made = 0, trace = [Fetch ''blk'', CallDefault []]\<rparr>)
   \<and> (\<forall>a (w :: (string \<times> string) list world).
         \<exists>e. fst (attemptAICorrection demo_platform llm_bad_syntax ''blk'' ''desc'' (code_text failing_fn)
                   boom [] a w) = Inl e
            \<and> message e = ''AI proposed invalid JavaScript syntax: Unexpected identifier error''
                           @ [CHR 0x0A] @ ''Code: () => { syntax error here; }'')
   \<and> (\<exists>e w'. run demo_platform (instance_of mem_get mem_save 2 (Some llm_bad_syntax)) ''blk'' ''desc''
                failing_fn [] [] (world0 []) = (Inl e, w')
          \<and> message e = ''Max AI retries reached for block ID: blk. Last AI error: ''
               @ ''AI proposed invalid JavaScript syntax: Unexpected identifier error''
               @ [CHR 0x0A] @ ''Code: () => { syntax error here; }'' @ ''. Original error: boom''
          \<and> llm_calls w' = 2
          \<and> length (prompts (new_events (world0 []) w')) = 2)"
proof -
  let ?I = "instance_of mem_get mem_save 2 (Some llm_bad_syntax)"
  let ?m = "''AI proposed invalid JavaScript syntax: Unexpected identifier error''
                           @ [CHR 0x0A] @ ''Code: () => { syntax error here; }''"
  have h1: "llm ?I = Some llm_bad_syntax" by (simp add: instance_of_def constructor_def)
  have mx: "maxAiRetries ?I = 2" by (simp add: instance_of_def constructor_def)
  have h2: "(1::int) \<le> maxAiRetries ?I" by (simp add: mx)
  have h3: "is_fn_or_text failing_fn" by (simp add: is_fn_or_text_def failing_fn_def)
  have h4: "run_try demo_platform ?I ''blk'' failing_fn [] [] (world0 [])
              = (Inl boom, \<lparr>db = [], llm_calls = 0, made = 0, trace = [Fetch ''blk'', CallDefault []]\<rparr>)"
    by code_simp
  have o: "outcome demo_platform False [] ''return () => { syntax error here; }'' []
             = Inl (syntax_error 3 ''Unexpected identifier error'')"
    by (simp add: outcome_def demo_platform_def demo_Function_def)
  have h5: "\<exists>e. fst (attemptAICorrection demo_platform llm_bad_syntax ''blk'' ''desc'' (code_text failing_fn)
                   boom [] a w) = Inl e \<and> message e = (\<lambda>k. ?m) (llm_calls w)"
    for a and w :: "(string \<times> string) list world"
  proof -
    let ?w0 = "(emit (Invoke (buildCorrectionPrompt demo_platform ''blk'' ''desc'' (code_text failing_fn)
                 boom [])) w)\<lparr>llm_calls := Suc (llm_calls w)\<rparr>"
    obtain r w1 where cc: "construct_and_call demo_platform False []
        (''return '' @ ''() => { syntax error here; }'') [] ?w0 = (r, w1)"
      by (cases "construct_and_call demo_platform False []
        (''return '' @ ''() => { syntax error here; }'') [] ?w0")
    then have "r = Inl (syntax_error 3 ''Unexpected identifier error'')"
      using construct_and_call_fst [of demo_platform False "[]"
         "''return '' @ ''() => { syntax error here; }''" "[]" ?w0] o by simp
    then have sc: "fst (syntax_check demo_platform ''() => { syntax error here; }'' ?w0)
                     = Inl (fst (new_Error ?m w1))"
      using cc by (simp add: syntax_check_def syntax_error_def)
    have "fst (attemptAICorrection demo_platform llm_bad_syntax ''blk'' ''desc'' (code_text failing_fn)
                   boom [] a w) = fst (syntax_check demo_platform ''() => { syntax error here; }'' ?w0)"
      by (simp add: attemptAICorrection_def Let_def llm_bad_syntax_def proposal_def parse_tool_args_def
            is_object_def get_prop_def usable_code_def)
    then show ?thesis using sc by simp
  qed
  from bounded_retries_exhausted [where msg = "\<lambda>k. ?m" and description = "''desc''",
         OF h1 h2 h3 h4 h5]
  have "\<exists>e w'. run demo_platform ?I ''blk'' ''desc'' failing_fn [] [] (world0 []) = (Inl e, w')
          \<and> message e = ''Max AI retries reached for block ID: blk. Last AI error: ''
               @ ?m @ ''. Original error: boom''
          \<and> llm_calls w' = 2
          \<and> length (prompts (new_events (world0 []) w')) = 2"
    by (simp add: mx boom_def world0_def numeral_2_eq_2)
  then show ?thesis using h1 h2 h3 h4 h5 by simp
qed

text \<open>
  C4 (the failure of the selected variant is never swallowed): with an LLM configured
  and \<open>maxAiRetries = 0\<close>, a default function that throws makes \<open>run\<close> resolve to
  \<open>undefined\<close>: the loop body never runs, so nothing is returned or thrown in the
  \<open>catch\<close> block; the LLM is not invoked and no corrected text is executed.
\<close>

theorem zero_retries_swallow_failure:
  "run demo_platform (instance_of mem_get mem_save 0 (Some llm_good)) ''blk'' ''desc'' failing_fn [] []
     (world0 [])
   = (Inr JUndefined, \<lparr>db = [], llm_calls = 0, made = 0, trace = [Fetch ''blk'', CallDefault []]\<rparr>)"
  by code_simp

text \<open>
  C5 (a fetch that throws propagates at once, with no repair attempt): the fetch is the
  first statement inside the outer \<open>try\<close>, so with an LLM configured a fetch that throws
  is caught like an execution failure. Here the fetch throws \<open>db down\<close>; nothing was
  executed, yet the LLM is invoked once with the default's text \<open>() => 0\<close> as the code
  that failed and the fetch error as its error, the proposal is saved and executed, and
  \<open>run\<close> returns 1 instead of throwing the fetch error.
\<close>

theorem fetch_failure_enters_repair:
  "fst (run demo_platform (instance_of failing_get mem_save 1 (Some llm_good)) ''blk'' ''desc'' fine_fn [] []
     (world0 [])) = Inr (JNum 1)
   \<and> llm_calls (snd (run demo_platform (instance_of failing_get mem_save 1 (Some llm_good)) ''blk'' ''desc''
     fine_fn [] [] (world0 []))) = 1
   \<and> trace (snd (run demo_platform (instance_of failing_get mem_save 1 (Some llm_good)) ''blk'' ''desc''
     fine_fn [] [] (world0 [])))
     = [Fetch ''blk'',
        Invoke \<lparr>ci_id = ''blk'', ci_description = ''desc'', ci_error = ''Error: db down'',
                ci_stack = ''Error: db down'', ci_originalCode = ''() => 0'', ci_args = ''[]''\<rparr>,
        Construct False [] ''return () => 1'', Apply [] ''return () => 1'' [],
        Save ''blk'' ''() => 1'', FunctionString ''() => 1'',
        Construct False [] ''return (() => 1)();'', Apply [] ''return (() => 1)();'' []]"
  by code_simp

text \<open>
  C6 as stated fails: the save is inside the inner \<open>try\<close>, so a save that throws is
  caught as a failed attempt. With two attempts allowed and a save that always throws,
  the LLM is invoked twice and \<open>run\<close> throws the summary error, whose "Last AI error"
  part is the message of the save failure.
\<close>

theorem save_failure_is_retried_and_folded:
  "map_sum message id (fst (run demo_platform (instance_of mem_get failing_save 2 (Some llm_good)) ''blk''
      ''desc'' failing_fn [] [] (world0 [])))
     = Inl ''Max AI retries reached for block ID: blk. Last AI error: db down. Original error: boom''
   \<and> llm_calls (snd (run demo_platform (instance_of mem_get failing_save 2 (Some llm_good)) ''blk''
      ''desc'' failing_fn [] [] (world0 []))) = 2"
  by code_simp

text \<open>
  C6 amended: when the save of an accepted correction throws \<open>e\<close> in attempt \<open>a\<close>, the
  attempt counts as failed: on the last attempt the loop throws the summary error with
  the message of \<open>e\<close> as last AI error, before the last it goes on with attempt \<open>a + 1\<close>.
\<close>

theorem save_failure_is_failed_attempt:
  assumes "attemptAICorrection P l bid d orig err args a w = (Inr c, w1)"
    and "saveFunctionToDb this (db w1) bid c = Inl e"
    and "a \<le> maxAiRetries this"
  shows "correction_loop P this l bid d orig err args a w =
           (if a = maxAiRetries this
            then throw_new (''Max AI retries reached for block ID: '' @ bid @ ''. Last AI error: ''
                            @ message e @ ''. Original error: '' @ message err) (emit (Save bid c) w1)
            else correction_loop P this l bid d orig err args (a + 1) (emit (Save bid c) w1))"
proof -
  have ct: "correction_try P this l bid d orig err args a w = (Inl e, emit (Save bid c) w1)"
    using assms(1,2) by (simp add: correction_try_def Let_def)
  show ?thesis
  proof (cases "a = maxAiRetries this")
    case True
    then show ?thesis using correction_loop_last [OF True ct] by simp
  next
    case False
    then have "a < maxAiRetries this" using assms(3) by simp
    from correction_loop_more [OF this ct] show ?thesis using False by simp
  qed
qed

theorem save_failure_is_failed_attempt_witness:
  "attemptAICorrection demo_platform llm_good ''blk'' ''desc'' ''() => 0'' boom [] 1 (world0 [])
     = (Inr ''() => 1'',
        \<lparr>db = [], llm_calls = 1, made = 0,
         trace = [Invoke (buildCorrectionPrompt demo_platform ''blk'' ''desc'' ''() => 0'' boom []),
                  Construct False [] ''return () => 1'', Apply [] ''return () => 1'' []]\<rparr>)
   \<and> saveFunctionToDb (instance_of mem_get failing_save 1 (Some llm_good)) [] ''blk'' ''() => 1''
       = Inl db_down
   \<and> (1::int) \<le> maxAiRetries (instance_of mem_get failing_save 1 (Some llm_good))
   \<and> map_sum message id (fst (correction_loop demo_platform (instance_of mem_get failing_save 1 (Some llm_good))
        llm_good ''blk'' ''desc'' ''() => 0'' boom [] 1 (world0 [])))
       = Inl (''Max AI retries reached for block ID: blk. Last AI error: '' @ message db_down
              @ ''. Original error: '' @ message boom)"
proof -
  let ?w1 = "\<lparr>db = [], llm_calls = 1, made = 0,
         trace = [Invoke (buildCorrectionPrompt demo_platform ''blk'' ''desc'' ''() => 0'' boom []),
                  Construct False [] ''return () => 1'', Apply [] ''return () => 1'' []]\<rparr>
         :: (string \<times> string) list world"
  have h1: "attemptAICorrection demo_platform llm_good ''blk'' ''desc'' ''() => 0'' boom [] 1 (world0 [])
     = (Inr ''() => 1'', ?w1)"
    by code_simp
  have h2: "saveFunctionToDb (instance_of mem_get failing_save 1 (Some llm_good)) (db ?w1) ''blk'' ''() => 1''
       = Inl db_down"
    by (simp add: instance_of_def constructor_def failing_save_def)
  have h3: "(1::int) \<le> maxAiRetries (instance_of mem_get failing_save 1 (Some llm_good))"
    by (simp add: instance_of_def constructor_def)
  have m: "maxAiRetries (instance_of mem_get failing_save 1 (Some llm_good)) = 1"
    by (simp add: instance_of_def constructor_def)
  show ?thesis
    using save_failure_is_failed_attempt [OF h1 h2 h3] h1 h2 h3
    by (simp add: m)
qed

text \<open>
  C7 as stated fails for text: the async function built from the default text
  \<open>() => nonExistentVar\<close> throws a ReferenceError with the message
  \<open>nonExistentVar is not defined\<close>; the executor's \<open>catch\<close> writes its context in front of
  that message before it throws the error again, so the caller of \<open>run\<close> (no LLM
  configured) gets another message than the one the execution raised.
\<close>

theorem text_failure_message_is_prefixed:
  "outcome demo_platform True [] '' return nonExistentVar '' [] = Inl (reference_error 5 ''nonExistentVar'')
   \<and> message (reference_error 5 ''nonExistentVar'') = ''nonExistentVar is not defined''
   \<and> map_sum message id (fst (run demo_platform (instance_of mem_get mem_save 3 None) ''blk'' ''desc''
        (Code ''() => nonExistentVar'') [] [] (world0 [])))
     = Inl ''Error executing code string via eval for ID blk: nonExistentVar is not defined''"
  by code_simp

text \<open>
  C7 amended: without LLM, when the selected variant (the stored text when the fetch
  gives one that is not empty, else the default) fails with \<open>e0\<close>, \<open>run\<close> throws that
  same error object with the executor's prefix in front of its message (no prefix when
  the variant is the caller's function: then the error is unchanged); the LLM is not
  invoked, nothing is saved and the store is as before.
\<close>

theorem no_llm_rethrows_same_object:
  assumes "llm this = None" and "is_fn_or_text fnOrCode"
    and "getFunctionFromDb this (db w) bid = Inr saved"
    and "selected_outcome P saved fnOrCode scope args = Inl e0"
  shows "fst (run P this bid description fnOrCode scope args w)
           = Inl (e0\<lparr>message := selected_prefix bid saved fnOrCode @ message e0\<rparr>)
       \<and> ident (e0\<lparr>message := selected_prefix bid saved fnOrCode @ message e0\<rparr>) = ident e0
       \<and> db (snd (run P this bid description fnOrCode scope args w)) = db w
       \<and> llm_calls (snd (run P this bid description fnOrCode scope args w)) = llm_calls w
       \<and> list_all (\<lambda>ev. \<not> is_save ev \<and> \<not> is_invoke ev)
            (new_events w (snd (run P this bid description fnOrCode scope args w)))"
proof -
  have eq: "run P this bid description fnOrCode scope args w = run_try P this bid fnOrCode scope args w"
    using assms(1)
    by (cases "run_try P this bid fnOrCode scope args w")
       (simp add: run_unfold [OF assms(2)] split: sum.splits)
  have f: "fst (run_try P this bid fnOrCode scope args w)
             = Inl (e0\<lparr>message := selected_prefix bid saved fnOrCode @ message e0\<rparr>)"
    using run_try_fst [OF assms(3), of P fnOrCode scope args] assms(4)
    by (simp add: add_context_def)
  have "extends_by (\<lambda>ev. \<not> is_save ev \<and> \<not> is_invoke ev) w
          (snd (run_try P this bid fnOrCode scope args w))"
    by (rule extends_by_mono [OF run_try_extends]) (rule try_not_save)
  then have "list_all (\<lambda>ev. \<not> is_save ev \<and> \<not> is_invoke ev)
               (new_events w (snd (run_try P this bid fnOrCode scope args w)))"
    using extends_byD by blast
  then show ?thesis using f by (simp add: eq)
qed

theorem no_llm_rethrows_same_object_witness:
  "llm (instance_of mem_get mem_save 3 None) = None
   \<and> is_fn_or_text (Code ''() => nonExistentVar'')
   \<and> getFunctionFromDb (instance_of mem_get mem_save 3 None) (db (world0 [])) ''blk'' = Inr None
   \<and> selected_outcome demo_platform None (Code ''() => nonExistentVar'') [] []
       = Inl (reference_error 5 ''nonExistentVar'')
   \<and> fst (run demo_platform (instance_of mem_get mem_save 3 None) ''blk'' ''desc''
            (Code ''() => nonExistentVar'') [] [] (world0 []))
       = Inl ((reference_error 5 ''nonExistentVar'')
               \<lparr>message := ''Error executing code string via eval for ID blk: nonExistentVar is not defined''\<rparr>)
   \<and> getFunctionFromDb (instance_of mem_get mem_save 3 None)
        (db (world0 [(''blk'', ''() => nonExistentDbVar'')])) ''blk''
       = Inr (Some ''() => nonExistentDbVar'')
   \<and> selected_outcome demo_platform (Some ''() => nonExistentDbVar'') fine_fn [] []
       = Inl (reference_error 1 ''nonExistentDbVar'')
   \<and> fst (run demo_platform (instance_of mem_get mem_save 3 None) ''blk'' ''desc'' fine_fn [] []
            (world0 [(''blk'', ''() => nonExistentDbVar'')]))
       = Inl ((reference_error 1 ''nonExistentDbVar'')
               \<lparr>message := ''Error executing function string for ID blk: nonExistentDbVar is not defined''\<rparr>)
   \<and> is_fn_or_text failing_fn
   \<and> selected_outcome demo_platform None failing_fn [] [] = Inl boom
   \<and> fst (run demo_platform (instance_of mem_get mem_save 3 None) ''blk'' ''desc'' failing_fn [] []
            (world0 [])) = Inl boom"
proof -
  let ?I = "instance_of mem_get mem_save 3 None"
  have h1: "llm ?I = None" by (simp add: instance_of_def constructor_def)
  have h2: "is_fn_or_text (Code ''() => nonExistentVar'')" by (simp add: is_fn_or_text_def)
  have h2': "is_fn_or_text fine_fn" by (simp add: is_fn_or_text_def fine_fn_def)
  have h2'': "is_fn_or_text failing_fn" by (simp add: is_fn_or_text_def failing_fn_def)
  have h3: "getFunctionFromDb ?I (db (world0 [])) ''blk'' = Inr None"
    by (simp add: instance_of_def constructor_def mem_get_def world0_def)
  have h3': "getFunctionFromDb ?I (db (world0 [(''blk'', ''() => nonExistentDbVar'')])) ''blk''
       = Inr (Some ''() => nonExistentDbVar'')"
    by (simp add: instance_of_def constructor_def mem_get_def world0_def)
  have h4: "selected_outcome demo_platform None (Code ''() => nonExistentVar'') [] []
       = Inl (reference_error 5 ''nonExistentVar'')"
    by code_simp
  have h4': "selected_outcome demo_platform (Some ''() => nonExistentDbVar'') fine_fn [] []
       = Inl (reference_error 1 ''nonExistentDbVar'')"
    by code_simp
  have h4'': "selected_outcome demo_platform None failing_fn [] [] = Inl boom"
    by (simp add: selected_outcome_def failing_fn_def)
  have p: "selected_prefix ''blk'' None (Code ''() => nonExistentVar'')
             = ''Error executing code string via eval for ID blk: ''"
    by (simp add: selected_prefix_def eval_prefix_def)
  have p': "selected_prefix ''blk'' (Some ''() => nonExistentDbVar'') fine_fn
             = ''Error executing function string for ID blk: ''"
    by (simp add: selected_prefix_def functionString_prefix_def)
  have p'': "selected_prefix ''blk'' None failing_fn = []"
    by (simp add: selected_prefix_def failing_fn_def)
  have r: "fst (run demo_platform ?I ''blk'' ''desc'' (Code ''() => nonExistentVar'') [] [] (world0 []))
       = Inl ((reference_error 5 ''nonExistentVar'')
               \<lparr>message := ''Error executing code string via eval for ID blk: nonExistentVar is not defined''\<rparr>)"
    using no_llm_rethrows_same_object [OF h1 h2 h3 h4, THEN conjunct1, of "''desc''"]
    by (simp add: p reference_error_def)
  have r': "fst (run demo_platform ?I ''blk'' ''desc'' fine_fn [] []
            (world0 [(''blk'', ''() => nonExistentDbVar'')]))
       = Inl ((reference_error 1 ''nonExistentDbVar'')
               \<lparr>message := ''Error executing function string for ID blk: nonExistentDbVar is not defined''\<rparr>)"
    using no_llm_rethrows_same_object [OF h1 h2' h3' h4', THEN conjunct1, of "''desc''"]
    by (simp add: p' reference_error_def)
  have r'': "fst (run demo_platform ?I ''blk'' ''desc'' failing_fn [] [] (world0 [])) = Inl boom"
    using no_llm_rethrows_same_object [OF h1 h2'' h3 h4'', THEN conjunct1, of "''desc''"]
    by (simp add: p'')
  show ?thesis by (intro conjI h1 h2 h3 h4 r h3' h4' r' h2'' h4'' r'')
qed



text \<open>
  C9 (the check of a proposal only parses): the proposal \<open>nonExistentVar\<close> is accepted by
  \<open>new Function\<close> (the text \<open>return nonExistentVar\<close> parses), and is rejected all the
  same, as "invalid JavaScript syntax", because the check also calls the function it
  built: the call evaluates the proposed expression and throws a ReferenceError. A
  \<open>run\<close> with one attempt whose LLM proposes this text ends with the summary error. The
  \<open>func\<close> of the correction tool does the same check.
\<close>

theorem check_calls_the_proposal:
  "isl (Function_ctor demo_platform [] ''return nonExistentVar'') = False
   \<and> map_sum message id (fst (syntax_check demo_platform ''nonExistentVar'' (world0 [])))
     = Inl (''AI proposed invalid JavaScript syntax: nonExistentVar is not defined'' @ [CHR 0x0A]
            @ ''Code: nonExistentVar'')
   \<and> trace (snd (syntax_check demo_platform ''nonExistentVar'' (world0 [])))
     = [Construct False [] ''return nonExistentVar'', Apply [] ''return nonExistentVar'' []]
   \<and> map_sum message id (fst (run demo_platform (instance_of mem_get mem_save 1 (Some llm_undeclared))
          ''blk'' ''desc'' failing_fn [] [] (world0 [])))
     = Inl (''Max AI retries reached for block ID: blk. Last AI error: ''
            @ ''AI proposed invalid JavaScript syntax: nonExistentVar is not defined'' @ [CHR 0x0A]
            @ ''Code: nonExistentVar. Original error: boom'')
   \<and> fst (correctionTool_func demo_platform ''blk'' ''blk'' ''nonExistentVar'' (world0 []))
     = ''Tool Error: Proposed code is not valid JavaScript syntax: nonExistentVar is not defined''"
  by code_simp



end
